theory Spec2Isabelle
  imports Complex_Main "HOL-Library.Sublist" "HOL-Library.Multiset"
begin

section \<open>StockSight: the persistence store and the cache fallback\<close>

text \<open>
  A shallow embedding of \<^verbatim>\<open>database.py\<close> (the SQLAlchemy store) and of
  \<^verbatim>\<open>fetch_data\<close> in \<^verbatim>\<open>app.py\<close>.

  \<^item> A table is the list of its rows in insertion order. The primary key \<^verbatim>\<open>id\<close> is a fresh
    \<^verbatim>\<open>uuid4\<close> that no operation reads; it is left out of the rows.
  \<^item> A \<^verbatim>\<open>datetime\<close> is an integer count of microseconds; \<^verbatim>\<open>timedelta(days=n)\<close> is
    \<open>n * 86400000000\<close>.
  \<^item> Every operation opens its own session. What the session has done reaches the table
    at \<^verbatim>\<open>db.commit()\<close> only, and \<^verbatim>\<open>db.rollback()\<close> drops it: the body of each
    \<^verbatim>\<open>try\<close> is a function into \<open>exn + _\<close> that computes the table to commit, and the
    operation returns the old database when the body raised.
  \<^item> What the outside world decides is an argument: the clocks, and for each kind of
    outside call the exception it raises, if any (\<open>fault\<close>).
  \<^item> A function named as in the source (\<open>save_stock_data\<close>, ...) is the \<^verbatim>\<open>try\<close> with
    its \<^verbatim>\<open>except\<close>, where the handler's own calls succeed. The function with the suffix
    \<open>_call\<close> is the whole body: \<^verbatim>\<open>db = get_db()\<close> before the \<^verbatim>\<open>try\<close>, the calls of
    the handler (\<^verbatim>\<open>db.rollback()\<close>, \<^verbatim>\<open>st.error(...)\<close>) and \<^verbatim>\<open>db.close()\<close> in
    \<^verbatim>\<open>finally\<close>, each of which may raise to the caller.
  \<^item> \<^verbatim>\<open>st.error\<close> writes to the page and is not part of any return value: what it
    writes is not modelled, only that the call may raise. The memoisation of
    \<^verbatim>\<open>st.cache_data\<close> is not modelled.
\<close>

subsection \<open>Values\<close>

type_synonym datetime = int

definition timedelta_days :: "int \<Rightarrow> int" where
  "timedelta_days n = n * 86400000000"

text \<open>A numeric cell of a DataFrame (a \<^verbatim>\<open>float64\<close>, or an integer read as a number).\<close>

datatype pynum = Num real | NaN | PosInf | NegInf

datatype exn =
    ValueError string
  | OverflowError string
  | SQLAlchemyError string
  | ProviderError string

text \<open>\<^verbatim>\<open>str(e)\<close>: the message the exception was built with.\<close>

fun str_exn :: "exn \<Rightarrow> string" where
  "str_exn (ValueError m) = m"
| "str_exn (OverflowError m) = m"
| "str_exn (SQLAlchemyError m) = m"
| "str_exn (ProviderError m) = m"

text \<open>\<^verbatim>\<open>float(x)\<close> of a numeric cell is the cell; \<^verbatim>\<open>int(x)\<close> truncates towards zero and
  raises on NaN and on the infinities.\<close>

definition py_float :: "pynum \<Rightarrow> pynum" where
  "py_float x = x"

fun py_int :: "pynum \<Rightarrow> exn + int" where
  "py_int (Num r) = Inr (if r < 0 then \<lceil>r\<rceil> else \<lfloor>r\<rfloor>)"
| "py_int NaN = Inl (ValueError ''cannot convert float NaN to integer'')"
| "py_int PosInf = Inl (OverflowError ''cannot convert float infinity to integer'')"
| "py_int NegInf = Inl (OverflowError ''cannot convert float infinity to integer'')"

text \<open>A value of the provider's \<^verbatim>\<open>info\<close> dictionary, and of a nullable column.\<close>

datatype pyval = PyStr string | PyNum pynum | PyNone

type_synonym pydict = "(string \<times> pyval) list"

text \<open>\<^verbatim>\<open>d.get(k, default)\<close> and \<^verbatim>\<open>k in d\<close>.\<close>

definition dict_get :: "pydict \<Rightarrow> string \<Rightarrow> pyval \<Rightarrow> pyval" where
  "dict_get d k dflt = (case map_of d k of None \<Rightarrow> dflt | Some v \<Rightarrow> v)"

definition dict_has :: "pydict \<Rightarrow> string \<Rightarrow> bool" where
  "dict_has d k = (map_of d k \<noteq> None)"

subsection \<open>Tables\<close>

record stock_row =
  sd_symbol :: string
  sd_date :: datetime
  open_price :: pynum
  high_price :: pynum
  low_price :: pynum
  close_price :: pynum
  volume :: int
  created_at :: datetime

record company_row =
  ci_symbol :: string
  company_name :: pyval
  sector :: pyval
  industry :: pyval
  market_cap :: pyval
  pe_ratio :: pyval
  dividend_yield :: pyval
  fifty_two_week_high :: pyval
  fifty_two_week_low :: pyval
  business_summary :: pyval
  last_updated :: datetime

record watchlist_row =
  wl_symbol :: string
  added_at :: datetime
  is_active :: bool

record database =
  stock_data :: "stock_row list"
  company_info :: "company_row list"
  user_watchlist :: "watchlist_row list"

text \<open>One row of a price DataFrame: the index \<^verbatim>\<open>Date\<close> and the five columns.\<close>

record bar =
  Date :: datetime
  Open :: pynum
  High :: pynum
  Low :: pynum
  Close :: pynum
  Volume :: pynum

subsection \<open>The environment of one store operation\<close>

text \<open>The calls of an operation that reach outside: inside the \<^verbatim>\<open>try\<close> the query, the bulk
  delete, the update and the commit; around it \<^verbatim>\<open>get_db()\<close>, \<^verbatim>\<open>db.rollback()\<close>,
  \<^verbatim>\<open>st.error(...)\<close> and \<^verbatim>\<open>db.close()\<close>.\<close>

datatype db_call = Query | Delete | Execute | Commit | GetDb | Rollback | StError | DbClose

record db_env =
  now :: datetime
  utcnow :: datetime
  fault :: "db_call \<Rightarrow> exn option"

subsection \<open>\<^verbatim>\<open>save_stock_data\<close>\<close>

text \<open>The constructor call \<^verbatim>\<open>StockData(symbol=..., ..., volume=int(row['Volume']))\<close>;
  \<^verbatim>\<open>created_at\<close> takes its default, the clock.\<close>

definition stock_record :: "string \<Rightarrow> datetime \<Rightarrow> bar \<Rightarrow> exn + stock_row" where
  "stock_record symbol clock b =
     (case py_int (Volume b) of
        Inl e \<Rightarrow> Inl e
      | Inr v \<Rightarrow> Inr \<lparr>sd_symbol = symbol, sd_date = Date b,
                      open_price = py_float (Open b), high_price = py_float (High b),
                      low_price = py_float (Low b), close_price = py_float (Close b),
                      volume = v, created_at = clock\<rparr>)"

text \<open>The loop over \<^verbatim>\<open>historical_data.iterrows()\<close>: each record is added to the session's
  pending rows; the first conversion that raises ends the loop.\<close>

fun add_records :: "string \<Rightarrow> datetime \<Rightarrow> bar list \<Rightarrow> stock_row list \<Rightarrow> exn + stock_row list" where
  "add_records symbol clock [] pending = Inr pending"
| "add_records symbol clock (b # bs) pending =
     (case stock_record symbol clock b of
        Inl e \<Rightarrow> Inl e
      | Inr r \<Rightarrow> add_records symbol clock bs (pending @ [r]))"

definition save_stock_data_try :: "db_env \<Rightarrow> database \<Rightarrow> string \<Rightarrow> bar list \<Rightarrow> exn + database" where
  "save_stock_data_try env db symbol historical_data =
     (let cutoff_date = now env - timedelta_days 30 in
      case fault env Delete of
        Some e \<Rightarrow> Inl e
      | None \<Rightarrow>
          let kept = filter (\<lambda>r. \<not> (sd_symbol r = symbol \<and> sd_date r \<ge> cutoff_date))
                       (stock_data db) in
          (case add_records symbol (utcnow env) historical_data [] of
             Inl e \<Rightarrow> Inl e
           | Inr pending \<Rightarrow>
               (case fault env Commit of
                  Some e \<Rightarrow> Inl e
                | None \<Rightarrow> Inr (db\<lparr>stock_data := kept @ pending\<rparr>))))"

definition save_stock_data :: "db_env \<Rightarrow> database \<Rightarrow> string \<Rightarrow> bar list \<Rightarrow> database \<times> bool" where
  "save_stock_data env db symbol historical_data =
     (case save_stock_data_try env db symbol historical_data of
        Inr db' \<Rightarrow> (db', True)
      | Inl e \<Rightarrow> (db, False))"

subsection \<open>\<^verbatim>\<open>save_company_info\<close>\<close>

definition company_values :: "pydict \<Rightarrow> datetime \<Rightarrow> company_row \<Rightarrow> company_row" where
  "company_values company_data clock r =
     r\<lparr>company_name := dict_get company_data ''longName'' (PyStr ''''),
       sector := dict_get company_data ''sector'' (PyStr ''''),
       industry := dict_get company_data ''industry'' (PyStr ''''),
       market_cap := dict_get company_data ''marketCap'' PyNone,
       pe_ratio := dict_get company_data ''trailingPE'' PyNone,
       dividend_yield := dict_get company_data ''dividendYield'' PyNone,
       fifty_two_week_high := dict_get company_data ''fiftyTwoWeekHigh'' PyNone,
       fifty_two_week_low := dict_get company_data ''fiftyTwoWeekLow'' PyNone,
       business_summary := dict_get company_data ''longBusinessSummary'' (PyStr ''''),
       last_updated := clock\<rparr>"

definition company_record :: "string \<Rightarrow> pydict \<Rightarrow> datetime \<Rightarrow> company_row" where
  "company_record symbol company_data clock =
     \<lparr>ci_symbol = symbol,
      company_name = dict_get company_data ''longName'' (PyStr ''''),
      sector = dict_get company_data ''sector'' (PyStr ''''),
      industry = dict_get company_data ''industry'' (PyStr ''''),
      market_cap = dict_get company_data ''marketCap'' PyNone,
      pe_ratio = dict_get company_data ''trailingPE'' PyNone,
      dividend_yield = dict_get company_data ''dividendYield'' PyNone,
      fifty_two_week_high = dict_get company_data ''fiftyTwoWeekHigh'' PyNone,
      fifty_two_week_low = dict_get company_data ''fiftyTwoWeekLow'' PyNone,
      business_summary = dict_get company_data ''longBusinessSummary'' (PyStr ''''),
      last_updated = clock\<rparr>"

definition save_company_info_try :: "db_env \<Rightarrow> database \<Rightarrow> string \<Rightarrow> pydict \<Rightarrow> exn + database" where
  "save_company_info_try env db symbol company_data =
     (case fault env Query of
        Some e \<Rightarrow> Inl e
      | None \<Rightarrow>
          let existing = find (\<lambda>r. ci_symbol r = symbol) (company_info db) in
          (case (if existing \<noteq> None
                 then (case fault env Execute of
                         Some e \<Rightarrow> Inl e
                       | None \<Rightarrow>
                           Inr (map (\<lambda>r. if ci_symbol r = symbol
                                          then company_values company_data (utcnow env) r else r)
                                  (company_info db)))
                 else Inr (company_info db @ [company_record symbol company_data (utcnow env)])) of
             Inl e \<Rightarrow> Inl e
           | Inr rows \<Rightarrow>
               (case fault env Commit of
                  Some e \<Rightarrow> Inl e
                | None \<Rightarrow> Inr (db\<lparr>company_info := rows\<rparr>))))"

definition save_company_info :: "db_env \<Rightarrow> database \<Rightarrow> string \<Rightarrow> pydict \<Rightarrow> database \<times> bool" where
  "save_company_info env db symbol company_data =
     (case save_company_info_try env db symbol company_data of
        Inr db' \<Rightarrow> (db', True)
      | Inl e \<Rightarrow> (db, False))"

subsection \<open>\<^verbatim>\<open>get_cached_stock_data\<close>\<close>

text \<open>\<^verbatim>\<open>{'1mo': 30, '3mo': 90, '6mo': 180, '1y': 365, '2y': 730}.get(period, 365)\<close>\<close>

definition period_days :: "string \<Rightarrow> int" where
  "period_days period =
     (case map_of [(''1mo'', 30), (''3mo'', 90), (''6mo'', 180), (''1y'', 365), (''2y'', 730)] period of
        None \<Rightarrow> 365
      | Some d \<Rightarrow> d)"

text \<open>One row of the returned DataFrame; the integer column \<^verbatim>\<open>volume\<close> is read as a
  number.\<close>

definition frame_row :: "stock_row \<Rightarrow> bar" where
  "frame_row r =
     \<lparr>Date = sd_date r, Open = open_price r, High = high_price r, Low = low_price r,
      Close = close_price r, Volume = Num (of_int (volume r))\<rparr>"

definition get_cached_stock_data_try :: "db_env \<Rightarrow> database \<Rightarrow> string \<Rightarrow> string \<Rightarrow> exn + bar list option" where
  "get_cached_stock_data_try env db symbol period =
     (let days = period_days period;
          start_date = now env - timedelta_days days in
      case fault env Query of
        Some e \<Rightarrow> Inl e
      | None \<Rightarrow>
          let records = sort_key sd_date
                          (filter (\<lambda>r. sd_symbol r = symbol \<and> sd_date r \<ge> start_date)
                             (stock_data db)) in
          if records \<noteq> [] then Inr (Some (map frame_row records)) else Inr None)"

definition get_cached_stock_data :: "db_env \<Rightarrow> database \<Rightarrow> string \<Rightarrow> string \<Rightarrow> bar list option" where
  "get_cached_stock_data env db symbol period =
     (case get_cached_stock_data_try env db symbol period of
        Inr res \<Rightarrow> res
      | Inl e \<Rightarrow> None)"

subsection \<open>\<^verbatim>\<open>get_company_info_from_db\<close>\<close>

definition company_dict :: "company_row \<Rightarrow> pydict" where
  "company_dict company =
     [(''longName'', company_name company),
      (''sector'', sector company),
      (''industry'', industry company),
      (''marketCap'', market_cap company),
      (''trailingPE'', pe_ratio company),
      (''dividendYield'', dividend_yield company),
      (''fiftyTwoWeekHigh'', fifty_two_week_high company),
      (''fiftyTwoWeekLow'', fifty_two_week_low company),
      (''longBusinessSummary'', business_summary company)]"

definition get_company_info_from_db_try :: "db_env \<Rightarrow> database \<Rightarrow> string \<Rightarrow> exn + pydict option" where
  "get_company_info_from_db_try env db symbol =
     (case fault env Query of
        Some e \<Rightarrow> Inl e
      | None \<Rightarrow>
          (case find (\<lambda>r. ci_symbol r = symbol) (company_info db) of
             Some company \<Rightarrow> Inr (Some (company_dict company))
           | None \<Rightarrow> Inr None))"

definition get_company_info_from_db :: "db_env \<Rightarrow> database \<Rightarrow> string \<Rightarrow> pydict option" where
  "get_company_info_from_db env db symbol =
     (case get_company_info_from_db_try env db symbol of
        Inr res \<Rightarrow> res
      | Inl e \<Rightarrow> None)"

subsection \<open>The watchlist\<close>

text \<open>\<^verbatim>\<open>UserWatchlist(symbol=symbol)\<close>: \<^verbatim>\<open>added_at\<close> and \<^verbatim>\<open>is_active\<close> take their defaults.\<close>

definition watchlist_item :: "string \<Rightarrow> datetime \<Rightarrow> watchlist_row" where
  "watchlist_item symbol clock = \<lparr>wl_symbol = symbol, added_at = clock, is_active = True\<rparr>"

definition add_to_watchlist_try :: "db_env \<Rightarrow> database \<Rightarrow> string \<Rightarrow> exn + database \<times> bool" where
  "add_to_watchlist_try env db symbol =
     (case fault env Query of
        Some e \<Rightarrow> Inl e
      | None \<Rightarrow>
          let existing = find (\<lambda>r. wl_symbol r = symbol \<and> is_active r = True) (user_watchlist db) in
          if existing = None
          then (case fault env Commit of
                  Some e \<Rightarrow> Inl e
                | None \<Rightarrow>
                    Inr (db\<lparr>user_watchlist :=
                               user_watchlist db @ [watchlist_item symbol (utcnow env)]\<rparr>, True))
          else Inr (db, False))"

definition add_to_watchlist :: "db_env \<Rightarrow> database \<Rightarrow> string \<Rightarrow> database \<times> bool" where
  "add_to_watchlist env db symbol =
     (case add_to_watchlist_try env db symbol of
        Inr res \<Rightarrow> res
      | Inl e \<Rightarrow> (db, False))"

definition remove_from_watchlist_try :: "db_env \<Rightarrow> database \<Rightarrow> string \<Rightarrow> exn + database \<times> bool" where
  "remove_from_watchlist_try env db symbol =
     (case fault env Query of
        Some e \<Rightarrow> Inl e
      | None \<Rightarrow>
          let item = find (\<lambda>r. wl_symbol r = symbol \<and> is_active r = True) (user_watchlist db) in
          if item \<noteq> None
          then (case fault env Execute of
                  Some e \<Rightarrow> Inl e
                | None \<Rightarrow>
                    (case fault env Commit of
                       Some e \<Rightarrow> Inl e
                     | None \<Rightarrow>
                         Inr (db\<lparr>user_watchlist :=
                                    map (\<lambda>r. if wl_symbol r = symbol then r\<lparr>is_active := False\<rparr> else r)
                                      (user_watchlist db)\<rparr>, True)))
          else Inr (db, False))"

definition remove_from_watchlist :: "db_env \<Rightarrow> database \<Rightarrow> string \<Rightarrow> database \<times> bool" where
  "remove_from_watchlist env db symbol =
     (case remove_from_watchlist_try env db symbol of
        Inr res \<Rightarrow> res
      | Inl e \<Rightarrow> (db, False))"

text \<open>\<^verbatim>\<open>order_by(UserWatchlist.added_at.desc())\<close>: a stable sort on the negated key.\<close>

definition get_watchlist_try :: "db_env \<Rightarrow> database \<Rightarrow> exn + string list" where
  "get_watchlist_try env db =
     (case fault env Query of
        Some e \<Rightarrow> Inl e
      | None \<Rightarrow>
          let watchlist = sort_key (\<lambda>r. - added_at r)
                            (filter (\<lambda>r. is_active r = True) (user_watchlist db)) in
          Inr (map wl_symbol watchlist))"

definition get_watchlist :: "db_env \<Rightarrow> database \<Rightarrow> string list" where
  "get_watchlist env db =
     (case get_watchlist_try env db of
        Inr res \<Rightarrow> res
      | Inl e \<Rightarrow> [])"

subsection \<open>The whole call of a store operation\<close>

text \<open>\<^verbatim>\<open>finally: db.close()\<close> runs on every path; an exception it raises replaces the
  value or the exception that was on its way out.\<close>

definition finally_close :: "db_env \<Rightarrow> exn + 'a \<Rightarrow> exn + 'a" where
  "finally_close env r = (case fault env DbClose of Some e \<Rightarrow> Inl e | None \<Rightarrow> r)"

text \<open>The handler of a write: \<^verbatim>\<open>db.rollback(); st.error(...); return False\<close>.\<close>

definition except_rollback :: "db_env \<Rightarrow> 'a \<Rightarrow> exn + 'a" where
  "except_rollback env dflt =
     (case fault env Rollback of
        Some e \<Rightarrow> Inl e
      | None \<Rightarrow> (case fault env StError of Some e \<Rightarrow> Inl e | None \<Rightarrow> Inr dflt))"

text \<open>The handler of a read: \<^verbatim>\<open>st.error(...); return None\<close> (or \<^verbatim>\<open>[]\<close>).\<close>

definition except_report :: "db_env \<Rightarrow> 'a \<Rightarrow> exn + 'a" where
  "except_report env dflt = (case fault env StError of Some e \<Rightarrow> Inl e | None \<Rightarrow> Inr dflt)"

definition save_stock_data_call ::
  "db_env \<Rightarrow> database \<Rightarrow> string \<Rightarrow> bar list \<Rightarrow> database \<times> (exn + bool)" where
  "save_stock_data_call env db symbol historical_data =
     (case fault env GetDb of
        Some e \<Rightarrow> (db, Inl e)
      | None \<Rightarrow>
          (case save_stock_data_try env db symbol historical_data of
             Inr db' \<Rightarrow> (db', finally_close env (Inr True))
           | Inl e \<Rightarrow> (db, finally_close env (except_rollback env False))))"

definition save_company_info_call ::
  "db_env \<Rightarrow> database \<Rightarrow> string \<Rightarrow> pydict \<Rightarrow> database \<times> (exn + bool)" where
  "save_company_info_call env db symbol company_data =
     (case fault env GetDb of
        Some e \<Rightarrow> (db, Inl e)
      | None \<Rightarrow>
          (case save_company_info_try env db symbol company_data of
             Inr db' \<Rightarrow> (db', finally_close env (Inr True))
           | Inl e \<Rightarrow> (db, finally_close env (except_rollback env False))))"

definition add_to_watchlist_call ::
  "db_env \<Rightarrow> database \<Rightarrow> string \<Rightarrow> database \<times> (exn + bool)" where
  "add_to_watchlist_call env db symbol =
     (case fault env GetDb of
        Some e \<Rightarrow> (db, Inl e)
      | None \<Rightarrow>
          (case add_to_watchlist_try env db symbol of
             Inr (db', b) \<Rightarrow> (db', finally_close env (Inr b))
           | Inl e \<Rightarrow> (db, finally_close env (except_rollback env False))))"

definition remove_from_watchlist_call ::
  "db_env \<Rightarrow> database \<Rightarrow> string \<Rightarrow> database \<times> (exn + bool)" where
  "remove_from_watchlist_call env db symbol =
     (case fault env GetDb of
        Some e \<Rightarrow> (db, Inl e)
      | None \<Rightarrow>
          (case remove_from_watchlist_try env db symbol of
             Inr (db', b) \<Rightarrow> (db', finally_close env (Inr b))
           | Inl e \<Rightarrow> (db, finally_close env (except_rollback env False))))"

definition get_cached_stock_data_call ::
  "db_env \<Rightarrow> database \<Rightarrow> string \<Rightarrow> string \<Rightarrow> exn + bar list option" where
  "get_cached_stock_data_call env db symbol period =
     (case fault env GetDb of
        Some e \<Rightarrow> Inl e
      | None \<Rightarrow>
          (case get_cached_stock_data_try env db symbol period of
             Inr res \<Rightarrow> finally_close env (Inr res)
           | Inl e \<Rightarrow> finally_close env (except_report env None)))"

definition get_company_info_from_db_call ::
  "db_env \<Rightarrow> database \<Rightarrow> string \<Rightarrow> exn + pydict option" where
  "get_company_info_from_db_call env db symbol =
     (case fault env GetDb of
        Some e \<Rightarrow> Inl e
      | None \<Rightarrow>
          (case get_company_info_from_db_try env db symbol of
             Inr res \<Rightarrow> finally_close env (Inr res)
           | Inl e \<Rightarrow> finally_close env (except_report env None)))"

definition get_watchlist_call :: "db_env \<Rightarrow> database \<Rightarrow> exn + string list" where
  "get_watchlist_call env db =
     (case fault env GetDb of
        Some e \<Rightarrow> Inl e
      | None \<Rightarrow>
          (case get_watchlist_try env db of
             Inr res \<Rightarrow> finally_close env (Inr res)
           | Inl e \<Rightarrow> finally_close env (except_report env [])))"

subsection \<open>\<^verbatim>\<open>fetch_data\<close>\<close>

text \<open>What the provider answers to \<^verbatim>\<open>ticker.history(period, interval)\<close> and to
  \<^verbatim>\<open>ticker.info\<close>: a value or an exception.\<close>

record provider =
  history :: "string \<Rightarrow> string \<Rightarrow> string \<Rightarrow> exn + bar list"
  ticker_info :: "string \<Rightarrow> exn + pydict"

text \<open>The four store operations of one \<^verbatim>\<open>fetch_data\<close> call each run in their own
  session, so each has its own environment.\<close>

record fetch_env =
  env_cached :: db_env
  env_cached_info :: db_env
  env_save_stock :: db_env
  env_save_info :: db_env

record fetch_result =
  historical :: "bar list option"
  info :: "pydict option"
  success :: bool
  error :: "string option"

text \<open>\<^verbatim>\<open>f"Symbol '{symbol}' not found or no data available."\<close>\<close>

definition not_found_message :: "string \<Rightarrow> string" where
  "not_found_message symbol =
     ''Symbol '' @ [CHR 0x27] @ symbol @ [CHR 0x27] @ '' not found or no data available.''"

text \<open>The \<^verbatim>\<open>try\<close> block from \<^verbatim>\<open>yf.Ticker(symbol)\<close> on. The two saves return a flag
  that is dropped; they never raise.\<close>

definition fetch_data_try ::
  "fetch_env \<Rightarrow> provider \<Rightarrow> database \<Rightarrow> string \<Rightarrow> string \<Rightarrow> string \<Rightarrow> exn + database \<times> fetch_result" where
  "fetch_data_try env prov db symbol period interval =
     (case history prov symbol period interval of
        Inl e \<Rightarrow> Inl e
      | Inr hist \<Rightarrow>
          (case ticker_info prov symbol of
             Inl e \<Rightarrow> Inl e
           | Inr tinfo \<Rightarrow>
               if \<not> dict_has tinfo ''regularMarketPrice''
               then Inl (ValueError (not_found_message symbol))
               else
                 let db1 = (if hist \<noteq> []
                            then fst (save_stock_data (env_save_stock env) db symbol hist) else db);
                     db2 = (if tinfo \<noteq> []
                            then fst (save_company_info (env_save_info env) db1 symbol tinfo) else db1)
                 in Inr (db2, \<lparr>historical = Some hist, info = Some tinfo,
                                success = True, error = None\<rparr>)))"

definition fetch_data ::
  "fetch_env \<Rightarrow> provider \<Rightarrow> database \<Rightarrow> string \<Rightarrow> string \<Rightarrow> string \<Rightarrow> database \<times> fetch_result" where
  "fetch_data env prov db symbol period interval =
     (let cached = get_cached_stock_data (env_cached env) db symbol period;
          cached_info = get_company_info_from_db (env_cached_info env) db symbol in
      case fetch_data_try env prov db symbol period interval of
        Inr res \<Rightarrow> res
      | Inl e \<Rightarrow>
          if cached \<noteq> None \<and> cached_info \<noteq> None
          then (db, \<lparr>historical = cached, info = cached_info, success = True, error = None\<rparr>)
          else (db, \<lparr>historical = None, info = None, success = False,
                     error = Some (str_exn e)\<rparr>))"

subsection \<open>Notions used in the statements\<close>

text \<open>The symbols of the active watchlist rows, in table order.\<close>

definition active_symbols :: "database \<Rightarrow> string list" where
  "active_symbols db = map wl_symbol (filter (\<lambda>r. is_active r = True) (user_watchlist db))"

text \<open>At most one active row per symbol.\<close>

definition one_active_per_symbol :: "database \<Rightarrow> bool" where
  "one_active_per_symbol db = distinct (active_symbols db)"

text \<open>No call inside the \<^verbatim>\<open>try\<close> raises.\<close>

definition no_fault :: "db_env \<Rightarrow> bool" where
  "no_fault env =
     (fault env Query = None \<and> fault env Delete = None \<and>
      fault env Execute = None \<and> fault env Commit = None)"

text \<open>The calls around the \<^verbatim>\<open>try\<close> do not raise: creating the session, the handler's
  rollback and report, and the close.\<close>

definition handlers_ok :: "db_env \<Rightarrow> bool" where
  "handlers_ok env =
     (fault env GetDb = None \<and> fault env Rollback = None \<and>
      fault env StError = None \<and> fault env DbClose = None)"

text \<open>The stored bars of a symbol dated at or after a bound, and those on one date.\<close>

definition bars_since :: "database \<Rightarrow> string \<Rightarrow> datetime \<Rightarrow> stock_row list" where
  "bars_since db symbol t = filter (\<lambda>r. sd_symbol r = symbol \<and> t \<le> sd_date r) (stock_data db)"

definition bars_on :: "database \<Rightarrow> string \<Rightarrow> datetime \<Rightarrow> stock_row list" where
  "bars_on db symbol d = filter (\<lambda>r. sd_symbol r = symbol \<and> sd_date r = d) (stock_data db)"

subsection \<open>Sample environments and data\<close>

text \<open>An environment in which no call raises, and one in which one kind of call does.\<close>

definition env_ok :: "datetime \<Rightarrow> db_env" where
  "env_ok t = \<lparr>now = t, utcnow = t, fault = (\<lambda>c. None)\<rparr>"

definition env_failing :: "datetime \<Rightarrow> db_call \<Rightarrow> db_env" where
  "env_failing t c =
     \<lparr>now = t, utcnow = t,
      fault = (\<lambda>c'. if c' = c then Some (SQLAlchemyError ''connection lost'') else None)\<rparr>"

text \<open>The connection is lost before the commit: the commit raises, and so does the rollback.\<close>

definition env_connection_lost :: "datetime \<Rightarrow> db_env" where
  "env_connection_lost t =
     \<lparr>now = t, utcnow = t,
      fault = (\<lambda>c. if c = Commit \<or> c = Rollback
                   then Some (SQLAlchemyError ''connection lost'') else None)\<rparr>"

definition empty_db :: database where
  "empty_db = \<lparr>stock_data = [], company_info = [], user_watchlist = []\<rparr>"

definition sample_bar :: "int \<Rightarrow> pynum \<Rightarrow> bar" where
  "sample_bar d v =
     \<lparr>Date = timedelta_days d, Open = Num 10, High = Num 12, Low = Num 9, Close = Num 11,
      Volume = v\<rparr>"

definition sample_row :: "string \<Rightarrow> int \<Rightarrow> stock_row" where
  "sample_row s d =
     \<lparr>sd_symbol = s, sd_date = timedelta_days d, open_price = Num 1, high_price = Num 2,
      low_price = Num 1, close_price = Num 2, volume = 500, created_at = timedelta_days d\<rparr>"

text \<open>A provider that is unreachable, and one that answers for a symbol it does not know:
  no bars, and an info dictionary without the live price.\<close>

definition provider_down :: provider where
  "provider_down =
     \<lparr>history = (\<lambda>s p i. Inl (ProviderError ''connection timed out'')),
      ticker_info = (\<lambda>s. Inl (ProviderError ''connection timed out''))\<rparr>"

definition provider_unknown :: provider where
  "provider_unknown =
     \<lparr>history = (\<lambda>s p i. Inr []),
      ticker_info = (\<lambda>s. Inr [(''trailingPegRatio'', PyNone)])\<rparr>"

definition sample_fetch_env :: "datetime \<Rightarrow> fetch_env" where
  "sample_fetch_env t =
     \<lparr>env_cached = env_ok t, env_cached_info = env_ok t,
      env_save_stock = env_ok t, env_save_info = env_ok t\<rparr>"

definition cached_db :: database where
  "cached_db =
     \<lparr>stock_data = [sample_row ''AAPL'' 95],
      company_info = [company_record ''AAPL'' [(''longName'', PyStr ''Apple Inc.'')] 0],
      user_watchlist = []\<rparr>"

section \<open>Properties\<close>

subsection \<open>The watchlist operations, case by case\<close>

lemma find_None_active:
  "(find (\<lambda>r. wl_symbol r = s \<and> is_active r) (user_watchlist db) = None) = (s \<notin> set (active_symbols db))"
  by (auto simp: find_None_iff active_symbols_def)

lemma add_to_watchlist_cases:
  "add_to_watchlist env db s =
     (if fault env Query = None \<and> s \<notin> set (active_symbols db) \<and> fault env Commit = None
      then (db\<lparr>user_watchlist := user_watchlist db @ [watchlist_item s (utcnow env)]\<rparr>, True)
      else (db, False))"
  by (cases "find (\<lambda>r. wl_symbol r = s \<and> is_active r) (user_watchlist db)")
     (use find_None_active[of s db] in \<open>auto simp: add_to_watchlist_def add_to_watchlist_try_def Let_def
           split: option.splits\<close>)

lemma remove_from_watchlist_cases:
  "remove_from_watchlist env db s =
     (if fault env Query = None \<and> s \<in> set (active_symbols db) \<and> fault env Execute = None
          \<and> fault env Commit = None
      then (db\<lparr>user_watchlist :=
                 map (\<lambda>r. if wl_symbol r = s then r\<lparr>is_active := False\<rparr> else r) (user_watchlist db)\<rparr>, True)
      else (db, False))"
  by (cases "find (\<lambda>r. wl_symbol r = s \<and> is_active r) (user_watchlist db)")
     (use find_None_active[of s db] in \<open>auto simp: remove_from_watchlist_def remove_from_watchlist_try_def Let_def
           split: option.splits\<close>)

lemma active_symbols_append:
  "active_symbols (db\<lparr>user_watchlist := user_watchlist db @ [watchlist_item s t]\<rparr>) = active_symbols db @ [s]"
  by (simp add: active_symbols_def watchlist_item_def)

lemma filter_active_deactivate:
  "map wl_symbol (filter is_active (map (\<lambda>r. if wl_symbol r = s then r\<lparr>is_active := False\<rparr> else r) rows))
   = filter (\<lambda>x. x \<noteq> s) (map wl_symbol (filter is_active rows))"
  by (induction rows) auto

lemma active_symbols_deactivate:
  "active_symbols (db\<lparr>user_watchlist :=
       map (\<lambda>r. if wl_symbol r = s then r\<lparr>is_active := False\<rparr> else r) (user_watchlist db)\<rparr>)
   = filter (\<lambda>x. x \<noteq> s) (active_symbols db)"
  by (simp add: active_symbols_def filter_active_deactivate)

lemma get_watchlist_cases:
  "get_watchlist env db =
    (if fault env Query = None
     then map wl_symbol (sort_key (\<lambda>r. - added_at r) (filter (\<lambda>r. is_active r = True) (user_watchlist db)))
     else [])"
  by (auto simp: get_watchlist_def get_watchlist_try_def split: option.splits)

lemma set_get_watchlist:
  "fault env Query = None \<Longrightarrow> set (get_watchlist env db) = set (active_symbols db)"
  by (simp add: get_watchlist_cases active_symbols_def)


subsection \<open>The loop and the transaction of \<^verbatim>\<open>save_stock_data\<close>\<close>

lemma add_records_Inr:
  "(add_records s c bs pending = Inr out) =
     (\<exists>new. out = pending @ new \<and> list_all2 (\<lambda>b r. stock_record s c b = Inr r) bs new)"
proof (induction bs arbitrary: pending)
  case Nil
  then show ?case by auto
next
  case (Cons b bs)
  show ?case
  proof (cases "stock_record s c b")
    case (Inl e)
    then show ?thesis by (auto simp: list_all2_Cons1)
  next
    case (Inr r)
    then show ?thesis by (auto simp: Cons.IH list_all2_Cons1)
  qed
qed


lemma stock_record_Inr:
  "(\<exists>r. stock_record s c b = Inr r) = (\<exists>x. Volume b = Num x)"
  by (cases "Volume b") (auto simp: stock_record_def)

lemma stock_record_fields:
  "stock_record s c b = Inr r \<Longrightarrow> sd_symbol r = s \<and> sd_date r = Date b"
  by (auto simp: stock_record_def split: sum.splits)

lemma save_stock_data_try_Inr:
  "(save_stock_data_try env db s bs = Inr db') =
     (fault env Delete = None \<and> fault env Commit = None \<and>
      (\<exists>new. list_all2 (\<lambda>b r. stock_record s (utcnow env) b = Inr r) bs new \<and>
         db' = db\<lparr>stock_data :=
                 filter (\<lambda>r. \<not> (sd_symbol r = s \<and> now env - timedelta_days 30 \<le> sd_date r))
                   (stock_data db) @ new\<rparr>))"
proof (cases "add_records s (utcnow env) bs []")
  case (Inl e)
  then have "\<not> (\<exists>new. list_all2 (\<lambda>b r. stock_record s (utcnow env) b = Inr r) bs new)"
    using add_records_Inr[of s "utcnow env" bs "[]"] by auto
  with Inl show ?thesis
    by (auto simp: save_stock_data_try_def Let_def split: option.splits)
next
  case (Inr out)
  then have *: "list_all2 (\<lambda>b r. stock_record s (utcnow env) b = Inr r) bs out"
    using add_records_Inr[of s "utcnow env" bs "[]" out] by simp
  have uniq: "new = out" if "list_all2 (\<lambda>b r. stock_record s (utcnow env) b = Inr r) bs new" for new
    using add_records_Inr[of s "utcnow env" bs "[]" new] that Inr by simp
  have eq: "save_stock_data_try env db s bs =
      (case fault env Delete of Some e \<Rightarrow> Inl e
       | None \<Rightarrow> (case fault env Commit of Some e \<Rightarrow> Inl e
          | None \<Rightarrow> Inr (db\<lparr>stock_data :=
                 filter (\<lambda>r. \<not> (sd_symbol r = s \<and> now env - timedelta_days 30 \<le> sd_date r))
                   (stock_data db) @ out\<rparr>)))"
    by (simp add: save_stock_data_try_def Inr Let_def split: option.splits)
  show ?thesis
  proof
    assume "save_stock_data_try env db s bs = Inr db'"
    then have "fault env Delete = None \<and> fault env Commit = None \<and>
        db' = db\<lparr>stock_data :=
                 filter (\<lambda>r. \<not> (sd_symbol r = s \<and> now env - timedelta_days 30 \<le> sd_date r))
                   (stock_data db) @ out\<rparr>"
      unfolding eq by (simp split: option.splits)
    with * show "fault env Delete = None \<and> fault env Commit = None \<and>
      (\<exists>new. list_all2 (\<lambda>b r. stock_record s (utcnow env) b = Inr r) bs new \<and>
         db' = db\<lparr>stock_data :=
                 filter (\<lambda>r. \<not> (sd_symbol r = s \<and> now env - timedelta_days 30 \<le> sd_date r))
                   (stock_data db) @ new\<rparr>)"
      by blast
  next
    assume "fault env Delete = None \<and> fault env Commit = None \<and>
      (\<exists>new. list_all2 (\<lambda>b r. stock_record s (utcnow env) b = Inr r) bs new \<and>
         db' = db\<lparr>stock_data :=
                 filter (\<lambda>r. \<not> (sd_symbol r = s \<and> now env - timedelta_days 30 \<le> sd_date r))
                   (stock_data db) @ new\<rparr>)"
    then obtain new where f: "fault env Delete = None" "fault env Commit = None"
      and n: "list_all2 (\<lambda>b r. stock_record s (utcnow env) b = Inr r) bs new"
      and d: "db' = db\<lparr>stock_data :=
                 filter (\<lambda>r. \<not> (sd_symbol r = s \<and> now env - timedelta_days 30 \<le> sd_date r))
                   (stock_data db) @ new\<rparr>"
      by blast
    from uniq[OF n] have "new = out" .
    then show "save_stock_data_try env db s bs = Inr db'"
      unfolding eq by (simp add: f d)
  qed
qed


lemma list_all2_new_dates:
  "list_all2 (\<lambda>b r. stock_record s c b = Inr r) bs new \<Longrightarrow> map sd_date new = map Date bs"
  by (induction bs new rule: list_all2_induct) (auto dest: stock_record_fields)

lemma save_stock_data_ok:
  "snd (save_stock_data env db s bs) = (\<exists>db'. save_stock_data_try env db s bs = Inr db')"
  by (auto simp: save_stock_data_def split: sum.splits)

lemma save_stock_data_fst:
  "save_stock_data_try env db s bs = Inr db' \<Longrightarrow> save_stock_data env db s bs = (db', True)"
  "save_stock_data_try env db s bs = Inl e \<Longrightarrow> save_stock_data env db s bs = (db, False)"
  by (auto simp: save_stock_data_def)


subsection \<open>The watchlist invariant\<close>

text \<open>
  Claim C9. From a watchlist with at most one active row per symbol, adding and removing a
  symbol leave a watchlist with at most one active row per symbol, whatever the session
  calls do; \<^verbatim>\<open>get_watchlist\<close> returns a list and writes nothing. A removal that
  returns true leaves no active row of the symbol at all: the update reaches every row of
  the symbol, not only the one the query found.
\<close>

theorem watchlist_invariant:
  "one_active_per_symbol db \<Longrightarrow>
     one_active_per_symbol (fst (add_to_watchlist env db s)) \<and>
     one_active_per_symbol (fst (remove_from_watchlist env db s)) \<and>
     (snd (remove_from_watchlist env db s) \<longrightarrow>
        s \<notin> set (active_symbols (fst (remove_from_watchlist env db s))))"
  by (auto simp: one_active_per_symbol_def add_to_watchlist_cases remove_from_watchlist_cases
        active_symbols_append active_symbols_deactivate)

theorem watchlist_invariant_witness:
  "one_active_per_symbol (fst (add_to_watchlist (env_ok 1) empty_db ''AAPL'')) \<and>
   one_active_per_symbol
     (fst (add_to_watchlist (env_ok 2) (fst (add_to_watchlist (env_ok 1) empty_db ''AAPL'')) ''AAPL'')) \<and>
   snd (remove_from_watchlist (env_ok 2) (fst (add_to_watchlist (env_ok 1) empty_db ''AAPL'')) ''AAPL'') \<and>
   ''AAPL'' \<notin> set (active_symbols
     (fst (remove_from_watchlist (env_ok 2) (fst (add_to_watchlist (env_ok 1) empty_db ''AAPL'')) ''AAPL'')))"
proof -
  have h: "one_active_per_symbol (fst (add_to_watchlist (env_ok 1) empty_db ''AAPL''))"
    by (simp add: one_active_per_symbol_def active_symbols_def add_to_watchlist_cases env_ok_def
          empty_db_def watchlist_item_def)
  have r: "snd (remove_from_watchlist (env_ok 2) (fst (add_to_watchlist (env_ok 1) empty_db ''AAPL'')) ''AAPL'')"
    by (simp add: active_symbols_def add_to_watchlist_cases remove_from_watchlist_cases env_ok_def
          empty_db_def watchlist_item_def)
  show ?thesis
    using h r watchlist_invariant [OF h, of "env_ok 2" "''AAPL''"] by simp
qed

subsection \<open>Refreshing the price bars\<close>




subsection \<open>What a refresh leaves alone\<close>

lemma length_filter_new_on:
  "list_all2 (\<lambda>b r. stock_record s c b = Inr r) bs new \<Longrightarrow>
     length (filter (\<lambda>r. sd_symbol r = s \<and> sd_date r = d) new) =
     length (filter (\<lambda>b. Date b = d) bs)"
  by (induction bs new rule: list_all2_induct) (auto dest: stock_record_fields)

lemma filter_filter_older:
  "d < t \<Longrightarrow>
     filter (\<lambda>r. sd_symbol r = s \<and> sd_date r = d)
       (filter (\<lambda>r. \<not> (sd_symbol r = s \<and> t \<le> sd_date r)) rows) =
     filter (\<lambda>r. sd_symbol r = s \<and> sd_date r = (d::int)) rows"
  by (induction rows) auto

lemma save_stock_data_result:
  "save_stock_data env db s bs = (db, False) \<or>
   (\<exists>new. list_all2 (\<lambda>b r. stock_record s (utcnow env) b = Inr r) bs new \<and>
      save_stock_data env db s bs =
        (db\<lparr>stock_data :=
             filter (\<lambda>r. \<not> (sd_symbol r = s \<and> now env - timedelta_days 30 \<le> sd_date r))
               (stock_data db) @ new\<rparr>, True))"
proof (cases "save_stock_data_try env db s bs")
  case (Inl e)
  then show ?thesis by (simp add: save_stock_data_def)
next
  case (Inr db')
  then obtain new where
    "list_all2 (\<lambda>b r. stock_record s (utcnow env) b = Inr r) bs new"
    "db' = db\<lparr>stock_data :=
             filter (\<lambda>r. \<not> (sd_symbol r = s \<and> now env - timedelta_days 30 \<le> sd_date r))
               (stock_data db) @ new\<rparr>"
    unfolding save_stock_data_try_Inr by blast
  with Inr show ?thesis by (auto simp: save_stock_data_def)
qed

text \<open>
  Claim C10. Whatever \<^verbatim>\<open>save_stock_data\<close> returns, the rows that are not rows of the symbol
  dated at or after now minus 30 days stay in the table, unmodified and in order, and so do
  the other two tables. On success the rows of the symbol on a date before the cutoff are
  the old ones followed by one new row for every bar given on that date: a date that had a
  row and gets a bar then has at least two rows.
\<close>

theorem save_stock_data_frame:
  fixes env db symbol bars
  defines "cutoff \<equiv> now env - timedelta_days 30"
  defines "res \<equiv> save_stock_data env db symbol bars"
  shows "prefix (filter (\<lambda>r. \<not> (sd_symbol r = symbol \<and> cutoff \<le> sd_date r)) (stock_data db))
           (filter (\<lambda>r. \<not> (sd_symbol r = symbol \<and> cutoff \<le> sd_date r)) (stock_data (fst res))) \<and>
         (\<forall>d. d < cutoff \<longrightarrow> prefix (bars_on db symbol d) (bars_on (fst res) symbol d)) \<and>
         (\<forall>d. d < cutoff \<longrightarrow> snd res \<longrightarrow>
              length (bars_on (fst res) symbol d) =
              length (bars_on db symbol d) + length (filter (\<lambda>b. Date b = d) bars)) \<and>
         (\<forall>d. d < cutoff \<longrightarrow> snd res \<longrightarrow> bars_on db symbol d \<noteq> [] \<longrightarrow>
              (\<exists>b\<in>set bars. Date b = d) \<longrightarrow> 2 \<le> length (bars_on (fst res) symbol d)) \<and>
         company_info (fst res) = company_info db \<and>
         user_watchlist (fst res) = user_watchlist db"
proof -
  consider (failed) "res = (db, False)"
    | (saved) new where
        "list_all2 (\<lambda>b r. stock_record symbol (utcnow env) b = Inr r) bars new"
        "res = (db\<lparr>stock_data :=
             filter (\<lambda>r. \<not> (sd_symbol r = symbol \<and> cutoff \<le> sd_date r)) (stock_data db) @ new\<rparr>, True)"
    using save_stock_data_result[of env db symbol bars] unfolding res_def cutoff_def by blast
  then show ?thesis
  proof cases
    case failed
    then show ?thesis by simp
  next
    case saved
    have on: "bars_on (fst res) symbol d =
        bars_on db symbol d @ filter (\<lambda>r. sd_symbol r = symbol \<and> sd_date r = d) new"
      if "d < cutoff" for d
      using filter_filter_older[OF that, of symbol "stock_data db"]
      by (simp add: saved(2) bars_on_def)
    have len: "length (bars_on (fst res) symbol d) =
        length (bars_on db symbol d) + length (filter (\<lambda>b. Date b = d) bars)"
      if "d < cutoff" for d
      using on[OF that] length_filter_new_on[OF saved(1), of d] by simp
    have two: "2 \<le> length (bars_on (fst res) symbol d)"
      if "d < cutoff" "bars_on db symbol d \<noteq> []" "\<exists>b\<in>set bars. Date b = d" for d
    proof -
      from that(2) have "1 \<le> length (bars_on db symbol d)"
        by (cases "bars_on db symbol d") auto
      moreover from that(3) have "filter (\<lambda>b. Date b = d) bars \<noteq> []"
        by (auto simp: filter_empty_conv)
      then have "1 \<le> length (filter (\<lambda>b. Date b = d) bars)"
        by (cases "filter (\<lambda>b. Date b = d) bars") auto
      ultimately show ?thesis using len[OF that(1)] by linarith
    qed
    have pre: "prefix (filter (\<lambda>r. \<not> (sd_symbol r = symbol \<and> cutoff \<le> sd_date r)) (stock_data db))
           (filter (\<lambda>r. \<not> (sd_symbol r = symbol \<and> cutoff \<le> sd_date r)) (stock_data (fst res)))"
      by (simp add: saved(2))
    have others: "company_info (fst res) = company_info db \<and>
         user_watchlist (fst res) = user_watchlist db"
      by (simp add: saved(2))
    show ?thesis using on len two pre others by (simp add: prefix_def)
  qed
qed

theorem save_stock_data_frame_witness:
  "timedelta_days 50 < now (env_ok (timedelta_days 100)) - timedelta_days 30 \<and>
   snd (save_stock_data (env_ok (timedelta_days 100))
          (empty_db\<lparr>stock_data := [sample_row ''AAPL'' 50]\<rparr>) ''AAPL''
          [sample_bar 50 (Num 1000), sample_bar 96 (Num 2000)]) \<and>
   bars_on (empty_db\<lparr>stock_data := [sample_row ''AAPL'' 50]\<rparr>) ''AAPL'' (timedelta_days 50) \<noteq> [] \<and>
   2 \<le> length (bars_on
          (fst (save_stock_data (env_ok (timedelta_days 100))
             (empty_db\<lparr>stock_data := [sample_row ''AAPL'' 50]\<rparr>) ''AAPL''
             [sample_bar 50 (Num 1000), sample_bar 96 (Num 2000)]))
          ''AAPL'' (timedelta_days 50))"
proof -
  have c: "timedelta_days 50 < now (env_ok (timedelta_days 100)) - timedelta_days 30"
    by (simp add: env_ok_def timedelta_days_def)
  have s: "snd (save_stock_data (env_ok (timedelta_days 100))
          (empty_db\<lparr>stock_data := [sample_row ''AAPL'' 50]\<rparr>) ''AAPL''
          [sample_bar 50 (Num 1000), sample_bar 96 (Num 2000)])"
    by (simp add: save_stock_data_def save_stock_data_try_def stock_record_def env_ok_def
          sample_bar_def Let_def)
  have n: "bars_on (empty_db\<lparr>stock_data := [sample_row ''AAPL'' 50]\<rparr>) ''AAPL'' (timedelta_days 50) \<noteq> []"
    by (simp add: bars_on_def empty_db_def sample_row_def)
  have b: "\<exists>b\<in>set [sample_bar 50 (Num 1000), sample_bar 96 (Num 2000)]. Date b = timedelta_days 50"
    by (simp add: sample_bar_def)
  show ?thesis
    using c s n b save_stock_data_frame [where env = "env_ok (timedelta_days 100)"
          and db = "empty_db\<lparr>stock_data := [sample_row ''AAPL'' 50]\<rparr>" and symbol = "''AAPL''"
          and bars = "[sample_bar 50 (Num 1000), sample_bar 96 (Num 2000)]"]
    by blast
qed

subsection \<open>Reading the cached bars\<close>

lemma sort_key_Nil_iff:
  "(sort_key f xs = []) = (xs = [])"
  using length_sort[of f xs] by (metis length_0_conv)

lemma get_cached_stock_data_cases:
  "get_cached_stock_data env db symbol period =
     (if fault env Query = None \<and>
         bars_since db symbol (now env - timedelta_days (period_days period)) \<noteq> []
      then Some (map frame_row
             (sort_key sd_date
                (bars_since db symbol (now env - timedelta_days (period_days period)))))
      else None)"
  by (auto simp: get_cached_stock_data_def get_cached_stock_data_try_def bars_since_def Let_def
        sort_key_Nil_iff split: option.splits)

lemma period_days_values:
  "period_days ''1mo'' = 30" "period_days ''3mo'' = 90" "period_days ''6mo'' = 180"
  "period_days ''1y'' = 365" "period_days ''2y'' = 730"
  by (simp_all add: period_days_def)

lemma period_days_default:
  "period \<notin> {''1mo'', ''3mo'', ''6mo'', ''1y'', ''2y''} \<Longrightarrow> period_days period = 365"
  by (simp add: period_days_def)

text \<open>
  Claim C4. When the query does not raise, \<^verbatim>\<open>get_cached_stock_data\<close> returns None exactly
  when the symbol has no stored bar dated at or after now minus the window of the period;
  otherwise it returns one frame row for each of exactly those bars, carrying the bar's date,
  open, high, low, close and volume as stored (as a multiset: the order of two bars of one
  date is the database's), in ascending order of date, none of them older than the window.
  The window is 30, 90, 180, 365 and 730 days for 1mo, 3mo, 6mo, 1y and 2y, and 365 days
  for any other period.
\<close>

theorem get_cached_stock_data_window:
  assumes "fault env Query = None"
  shows "(get_cached_stock_data env db symbol period = None \<longleftrightarrow>
            bars_since db symbol (now env - timedelta_days (period_days period)) = []) \<and>
         (\<forall>rs. get_cached_stock_data env db symbol period = Some rs \<longrightarrow>
            mset rs =
              mset (map (\<lambda>r. \<lparr>Date = sd_date r, Open = open_price r, High = high_price r,
                              Low = low_price r, Close = close_price r,
                              Volume = Num (of_int (volume r))\<rparr>)
                      (bars_since db symbol (now env - timedelta_days (period_days period)))) \<and>
            sorted (map Date rs) \<and>
            (\<forall>r\<in>set rs. now env - timedelta_days (period_days period) \<le> Date r)) \<and>
         period_days ''1mo'' = 30 \<and> period_days ''3mo'' = 90 \<and> period_days ''6mo'' = 180 \<and>
         period_days ''1y'' = 365 \<and> period_days ''2y'' = 730 \<and>
         (period \<notin> {''1mo'', ''3mo'', ''6mo'', ''1y'', ''2y''} \<longrightarrow> period_days period = 365)"
proof -
  let ?t = "now env - timedelta_days (period_days period)"
  let ?m = "bars_since db symbol ?t"
  let ?row = "\<lambda>r. \<lparr>Date = sd_date r, Open = open_price r, High = high_price r,
                    Low = low_price r, Close = close_price r,
                    Volume = Num (of_int (volume r))\<rparr>"
  have fr: "frame_row = ?row"
    by (rule ext) (simp add: frame_row_def)
  have none: "get_cached_stock_data env db symbol period = None \<longleftrightarrow> ?m = []"
    using assms by (simp add: get_cached_stock_data_cases)
  have some: "mset rs = mset (map ?row ?m) \<and> sorted (map Date rs) \<and> (\<forall>r\<in>set rs. ?t \<le> Date r)"
    if "get_cached_stock_data env db symbol period = Some rs" for rs
  proof -
    from that have rs: "rs = map frame_row (sort_key sd_date ?m)"
      by (simp add: get_cached_stock_data_cases split: if_splits)
    have d: "map Date rs = map sd_date (sort_key sd_date ?m)"
      by (simp add: rs frame_row_def comp_def)
    have "mset rs = mset (map frame_row ?m)"
      by (simp add: rs)
    then have "mset rs = mset (map ?row ?m)"
      by (simp only: fr)
    moreover have "sorted (map Date rs)"
      unfolding d by (rule sorted_sort_key)
    moreover have "\<forall>r\<in>set rs. ?t \<le> Date r"
      by (auto simp: rs frame_row_def bars_since_def)
    ultimately show ?thesis by blast
  qed
  show ?thesis
    using none some period_days_values period_days_default[of period] by blast
qed

theorem get_cached_stock_data_window_witness:
  "fault (env_ok (timedelta_days 100)) Query = None \<and>
   get_cached_stock_data (env_ok (timedelta_days 100))
     (empty_db\<lparr>stock_data :=
        [\<lparr>sd_symbol = ''AAPL'', sd_date = timedelta_days 95, open_price = Num 3,
          high_price = Num 5, low_price = Num 2, close_price = Num 4, volume = 700,
          created_at = timedelta_days 96\<rparr>,
         sample_row ''AAPL'' 50,
         sample_row ''MSFT'' 90,
         \<lparr>sd_symbol = ''AAPL'', sd_date = timedelta_days 80, open_price = Num 13,
          high_price = Num 15, low_price = Num 12, close_price = Num 14, volume = 900,
          created_at = timedelta_days 81\<rparr>]\<rparr>)
     ''AAPL'' ''1mo''
     = Some [\<lparr>Date = timedelta_days 80, Open = Num 13, High = Num 15, Low = Num 12,
              Close = Num 14, Volume = Num 900\<rparr>,
             \<lparr>Date = timedelta_days 95, Open = Num 3, High = Num 5, Low = Num 2,
              Close = Num 4, Volume = Num 700\<rparr>] \<and>
   sorted (map Date
            [\<lparr>Date = timedelta_days 80, Open = Num 13, High = Num 15, Low = Num 12,
              Close = Num 14, Volume = Num 900\<rparr>,
             \<lparr>Date = timedelta_days 95, Open = Num 3, High = Num 5, Low = Num 2,
              Close = Num 4, Volume = Num 700\<rparr>]) \<and>
   get_cached_stock_data (env_ok (timedelta_days 100))
     (empty_db\<lparr>stock_data := [sample_row ''AAPL'' 50]\<rparr>) ''AAPL'' ''1mo'' = None"
proof -
  let ?D = "empty_db\<lparr>stock_data :=
        [\<lparr>sd_symbol = ''AAPL'', sd_date = timedelta_days 95, open_price = Num 3,
          high_price = Num 5, low_price = Num 2, close_price = Num 4, volume = 700,
          created_at = timedelta_days 96\<rparr>,
         sample_row ''AAPL'' 50,
         sample_row ''MSFT'' 90,
         \<lparr>sd_symbol = ''AAPL'', sd_date = timedelta_days 80, open_price = Num 13,
          high_price = Num 15, low_price = Num 12, close_price = Num 14, volume = 900,
          created_at = timedelta_days 81\<rparr>]\<rparr>"
  let ?R = "[\<lparr>Date = timedelta_days 80, Open = Num 13, High = Num 15, Low = Num 12,
              Close = Num 14, Volume = Num 900\<rparr>,
             \<lparr>Date = timedelta_days 95, Open = Num 3, High = Num 5, Low = Num 2,
              Close = Num 4, Volume = Num 700\<rparr>]"
  have f: "fault (env_ok (timedelta_days 100)) Query = None"
    by (simp add: env_ok_def)
  have v: "get_cached_stock_data (env_ok (timedelta_days 100)) ?D ''AAPL'' ''1mo'' = Some ?R"
    by (simp add: get_cached_stock_data_def get_cached_stock_data_try_def frame_row_def
          period_days_def env_ok_def empty_db_def sample_row_def timedelta_days_def Let_def)
  have e: "bars_since (empty_db\<lparr>stock_data := [sample_row ''AAPL'' 50]\<rparr>) ''AAPL''
             (now (env_ok (timedelta_days 100)) - timedelta_days (period_days ''1mo'')) = []"
    by (simp add: bars_since_def period_days_def env_ok_def empty_db_def sample_row_def
          timedelta_days_def)
  have s: "sorted (map Date ?R)"
    using v get_cached_stock_data_window [OF f, of ?D "''AAPL''" "''1mo''"]
    by blast
  have n: "get_cached_stock_data (env_ok (timedelta_days 100))
     (empty_db\<lparr>stock_data := [sample_row ''AAPL'' 50]\<rparr>) ''AAPL'' ''1mo'' = None"
    using e get_cached_stock_data_window [OF f,
        of "empty_db\<lparr>stock_data := [sample_row ''AAPL'' 50]\<rparr>" "''AAPL''" "''1mo''"]
    by blast
  show ?thesis using f v s n by blast
qed

subsection \<open>Adding to and removing from the watchlist\<close>

lemma count_list_active_append:
  "count_list (active_symbols (db\<lparr>user_watchlist := user_watchlist db @ [watchlist_item s t]\<rparr>)) s =
   count_list (active_symbols db) s + 1"
  by (simp add: active_symbols_append)

lemma count_list_0_iff:
  "(count_list xs x = 0) = (x \<notin> set xs)"
  by (induction xs) auto

text \<open>
  Claim C5. With no call raising, \<^verbatim>\<open>add_to_watchlist\<close> returns false and leaves the
  database as it is when the symbol has an active row, and otherwise appends one active row
  for the symbol, stamped with the clock, and returns true. A second call for the same
  symbol then changes nothing and returns false, and a symbol that had at most one active
  row before has exactly one after the two calls.
\<close>

theorem add_to_watchlist_idempotent:
  assumes "no_fault env1" and "no_fault env2"
  shows "(s \<in> set (active_symbols db) \<longrightarrow> add_to_watchlist env1 db s = (db, False)) \<and>
         (s \<notin> set (active_symbols db) \<longrightarrow>
            add_to_watchlist env1 db s =
              (db\<lparr>user_watchlist := user_watchlist db @
                    [\<lparr>wl_symbol = s, added_at = utcnow env1, is_active = True\<rparr>]\<rparr>, True)) \<and>
         add_to_watchlist env2 (fst (add_to_watchlist env1 db s)) s =
           (fst (add_to_watchlist env1 db s), False) \<and>
         (count_list (active_symbols db) s \<le> 1 \<longrightarrow>
            count_list (active_symbols
              (fst (add_to_watchlist env2 (fst (add_to_watchlist env1 db s)) s))) s = 1)"
proof -
  from assms have f: "fault env1 Query = None" "fault env1 Commit = None"
      "fault env2 Query = None" "fault env2 Commit = None"
    by (simp_all add: no_fault_def)
  have a: "s \<in> set (active_symbols db) \<longrightarrow> add_to_watchlist env1 db s = (db, False)"
    by (simp add: add_to_watchlist_cases)
  have b: "s \<notin> set (active_symbols db) \<longrightarrow>
            add_to_watchlist env1 db s =
              (db\<lparr>user_watchlist := user_watchlist db @
                    [\<lparr>wl_symbol = s, added_at = utcnow env1, is_active = True\<rparr>]\<rparr>, True)"
    by (simp add: add_to_watchlist_cases f watchlist_item_def)
  have m: "s \<in> set (active_symbols (fst (add_to_watchlist env1 db s)))"
    by (cases "s \<in> set (active_symbols db)")
       (simp_all add: add_to_watchlist_cases f active_symbols_append)
  have c: "add_to_watchlist env2 (fst (add_to_watchlist env1 db s)) s =
           (fst (add_to_watchlist env1 db s), False)"
    using m by (simp add: add_to_watchlist_cases[of env2])
  have d: "count_list (active_symbols (fst (add_to_watchlist env1 db s))) s = 1"
    if le: "count_list (active_symbols db) s \<le> 1"
  proof (cases "s \<in> set (active_symbols db)")
    case True
    then have "count_list (active_symbols db) s \<noteq> 0" by (simp add: count_list_0_iff)
    with le have "count_list (active_symbols db) s = 1" by linarith
    with True show ?thesis by (simp add: add_to_watchlist_cases)
  next
    case False
    then have "count_list (active_symbols db) s = 0" by (simp add: count_list_0_iff)
    with False show ?thesis
      by (simp add: add_to_watchlist_cases f count_list_active_append)
  qed
  show ?thesis using a b c d by simp
qed

theorem add_to_watchlist_idempotent_witness:
  "no_fault (env_ok 1) \<and> no_fault (env_ok 2) \<and>
   add_to_watchlist (env_ok 1) empty_db ''AAPL'' =
     (empty_db\<lparr>user_watchlist := [\<lparr>wl_symbol = ''AAPL'', added_at = 1, is_active = True\<rparr>]\<rparr>, True) \<and>
   add_to_watchlist (env_ok 2) (fst (add_to_watchlist (env_ok 1) empty_db ''AAPL'')) ''AAPL'' =
     (fst (add_to_watchlist (env_ok 1) empty_db ''AAPL''), False) \<and>
   count_list (active_symbols
     (fst (add_to_watchlist (env_ok 2) (fst (add_to_watchlist (env_ok 1) empty_db ''AAPL'')) ''AAPL'')))
     ''AAPL'' = 1"
proof -
  have f: "no_fault (env_ok 1)" "no_fault (env_ok 2)"
    by (simp_all add: no_fault_def env_ok_def)
  have n: "''AAPL'' \<notin> set (active_symbols empty_db)" "count_list (active_symbols empty_db) ''AAPL'' \<le> 1"
    by (simp_all add: active_symbols_def empty_db_def)
  have u: "user_watchlist empty_db = []" "utcnow (env_ok 1) = 1"
    by (simp_all add: empty_db_def env_ok_def)
  note t = add_to_watchlist_idempotent [OF f, of "''AAPL''" empty_db]
  have a: "add_to_watchlist (env_ok 1) empty_db ''AAPL'' =
     (empty_db\<lparr>user_watchlist := [\<lparr>wl_symbol = ''AAPL'', added_at = 1, is_active = True\<rparr>]\<rparr>, True)"
    using t n(1) by (simp add: u)
  have c: "add_to_watchlist (env_ok 2) (fst (add_to_watchlist (env_ok 1) empty_db ''AAPL'')) ''AAPL'' =
     (fst (add_to_watchlist (env_ok 1) empty_db ''AAPL''), False)"
    using t by blast
  have d: "count_list (active_symbols
     (fst (add_to_watchlist (env_ok 2) (fst (add_to_watchlist (env_ok 1) empty_db ''AAPL'')) ''AAPL'')))
     ''AAPL'' = 1"
    using t n(2) by blast
  show ?thesis using f a c d by blast
qed

text \<open>
  Claim C6. With no call raising, \<^verbatim>\<open>remove_from_watchlist\<close> on a symbol with an active
  row marks every row of the symbol inactive, leaves the other rows as they are, changes
  the table and returns true; on a symbol with no active row (one never added among them)
  it returns false and leaves the database as it is. So it returns true exactly when the
  database changed, and after an add followed by a remove the symbol is not in the list.
\<close>

theorem remove_from_watchlist_deactivates:
  assumes "no_fault env" and "no_fault env1" and "no_fault env2"
  shows "(s \<in> set (active_symbols db) \<longrightarrow>
            remove_from_watchlist env db s =
              (db\<lparr>user_watchlist :=
                    map (\<lambda>r. if wl_symbol r = s then r\<lparr>is_active := False\<rparr> else r)
                      (user_watchlist db)\<rparr>, True) \<and>
            s \<notin> set (active_symbols (fst (remove_from_watchlist env db s)))) \<and>
         (s \<notin> set (active_symbols db) \<longrightarrow> remove_from_watchlist env db s = (db, False)) \<and>
         (s \<notin> wl_symbol ` set (user_watchlist db) \<longrightarrow> remove_from_watchlist env db s = (db, False)) \<and>
         (snd (remove_from_watchlist env db s) \<longleftrightarrow> fst (remove_from_watchlist env db s) \<noteq> db) \<and>
         s \<notin> set (get_watchlist env2
                    (fst (remove_from_watchlist env (fst (add_to_watchlist env1 db s)) s)))"
proof -
  from assms have f: "fault env Query = None" "fault env Execute = None" "fault env Commit = None"
      "fault env1 Query = None" "fault env1 Commit = None" "fault env2 Query = None"
    by (simp_all add: no_fault_def)
  have a: "s \<in> set (active_symbols db) \<longrightarrow>
            remove_from_watchlist env db s =
              (db\<lparr>user_watchlist :=
                    map (\<lambda>r. if wl_symbol r = s then r\<lparr>is_active := False\<rparr> else r)
                      (user_watchlist db)\<rparr>, True) \<and>
            s \<notin> set (active_symbols (fst (remove_from_watchlist env db s)))"
    by (simp add: remove_from_watchlist_cases f active_symbols_deactivate)
  have b: "s \<notin> set (active_symbols db) \<longrightarrow> remove_from_watchlist env db s = (db, False)"
    by (simp add: remove_from_watchlist_cases)
  have sub: "set (active_symbols db) \<subseteq> wl_symbol ` set (user_watchlist db)"
    by (auto simp: active_symbols_def)
  have c: "s \<notin> wl_symbol ` set (user_watchlist db) \<longrightarrow> remove_from_watchlist env db s = (db, False)"
    using b sub by blast
  have neq: "fst (remove_from_watchlist env db s) \<noteq> db" if "s \<in> set (active_symbols db)"
  proof
    assume "fst (remove_from_watchlist env db s) = db"
    then have "active_symbols (fst (remove_from_watchlist env db s)) = active_symbols db" by simp
    with a that show False by simp
  qed
  have d: "snd (remove_from_watchlist env db s) \<longleftrightarrow> fst (remove_from_watchlist env db s) \<noteq> db"
  proof (cases "s \<in> set (active_symbols db)")
    case True
    with neq a show ?thesis by simp
  next
    case False
    with b show ?thesis by simp
  qed
  have m: "s \<in> set (active_symbols (fst (add_to_watchlist env1 db s)))"
    by (cases "s \<in> set (active_symbols db)")
       (simp_all add: add_to_watchlist_cases f active_symbols_append)
  have e: "s \<notin> set (get_watchlist env2
                    (fst (remove_from_watchlist env (fst (add_to_watchlist env1 db s)) s)))"
    using m by (simp add: set_get_watchlist[OF f(6)] remove_from_watchlist_cases[of env] f
                  active_symbols_deactivate)
  show ?thesis using a b c d e by blast
qed

theorem remove_from_watchlist_deactivates_witness:
  "no_fault (env_ok 1) \<and> no_fault (env_ok 2) \<and> no_fault (env_ok 3) \<and>
   ''MSFT'' \<notin> set (active_symbols empty_db) \<and>
   remove_from_watchlist (env_ok 2) empty_db ''MSFT'' = (empty_db, False) \<and>
   ''AAPL'' \<notin> set (get_watchlist (env_ok 3)
      (fst (remove_from_watchlist (env_ok 2) (fst (add_to_watchlist (env_ok 1) empty_db ''AAPL'')) ''AAPL'')))"
proof -
  have f: "no_fault (env_ok 2)" "no_fault (env_ok 1)" "no_fault (env_ok 3)"
    by (simp_all add: no_fault_def env_ok_def)
  have n: "''MSFT'' \<notin> set (active_symbols empty_db)"
    by (simp add: active_symbols_def empty_db_def)
  show ?thesis
    using f n remove_from_watchlist_deactivates [OF f, of "''MSFT''" empty_db]
      remove_from_watchlist_deactivates [OF f, of "''AAPL''" empty_db]
    by blast
qed

subsection \<open>The order of the watchlist\<close>

lemma foldr_insort_key_least:
  "\<forall>y\<in>set xs. f x < f y \<Longrightarrow>
     foldr (insort_key f) xs [x] = x # foldr (insort_key f) xs []"
  by (induction xs) auto

lemma sort_key_snoc_least:
  "\<forall>y\<in>set xs. f x < f y \<Longrightarrow> sort_key f (xs @ [x]) = x # sort_key f xs"
  by (simp add: sort_key_def foldr_insort_key_least)

lemma filter_symbol_sort_key:
  "map wl_symbol (filter (\<lambda>r. wl_symbol r \<noteq> s) (sort_key f rows)) =
   filter (\<lambda>x. x \<noteq> s) (map wl_symbol (sort_key f rows))"
  by (simp add: filter_map comp_def)

lemma active_rows_deactivate:
  "filter is_active (map (\<lambda>r. if wl_symbol r = s then r\<lparr>is_active := False\<rparr> else r) rows) =
   filter (\<lambda>r. wl_symbol r \<noteq> s) (filter is_active rows)"
  by (induction rows) auto

lemma get_watchlist_after_add:
  assumes "fault env Query = None" and "fault env1 Query = None" and "fault env1 Commit = None"
    and "s \<notin> set (active_symbols db)"
    and "\<forall>r\<in>set (user_watchlist db). is_active r \<longrightarrow> added_at r < utcnow env1"
  shows "get_watchlist env (fst (add_to_watchlist env1 db s)) = s # get_watchlist env db"
proof -
  let ?new = "watchlist_item s (utcnow env1)"
  have least: "\<forall>y\<in>set (filter is_active (user_watchlist db)). - added_at ?new < - added_at y"
    using assms(5) by (simp add: watchlist_item_def)
  have "sort_key (\<lambda>r. - added_at r) (filter is_active (user_watchlist db) @ [?new]) =
        ?new # sort_key (\<lambda>r. - added_at r) (filter is_active (user_watchlist db))"
    by (rule sort_key_snoc_least[OF least])
  moreover have "filter is_active (user_watchlist db @ [?new]) =
        filter is_active (user_watchlist db) @ [?new]"
    by (simp add: watchlist_item_def)
  ultimately show ?thesis
    using assms(1-4) by (simp add: get_watchlist_cases add_to_watchlist_cases watchlist_item_def)
qed

lemma get_watchlist_after_remove:
  assumes "fault env Query = None"
  shows "get_watchlist env (fst (remove_from_watchlist env2 db s)) =
         (if snd (remove_from_watchlist env2 db s)
          then filter (\<lambda>x. x \<noteq> s) (get_watchlist env db) else get_watchlist env db)"
proof (cases "snd (remove_from_watchlist env2 db s)")
  case False
  then have "fst (remove_from_watchlist env2 db s) = db"
    by (auto simp: remove_from_watchlist_cases split: if_splits)
  with False show ?thesis by simp
next
  case True
  let ?A = "filter is_active (user_watchlist db)"
  let ?k = "\<lambda>r. - added_at r"
  from True have db': "user_watchlist (fst (remove_from_watchlist env2 db s)) =
      map (\<lambda>r. if wl_symbol r = s then r\<lparr>is_active := False\<rparr> else r) (user_watchlist db)"
    by (auto simp: remove_from_watchlist_cases split: if_splits)
  have "get_watchlist env (fst (remove_from_watchlist env2 db s)) =
      map wl_symbol (sort_key ?k (filter (\<lambda>r. wl_symbol r \<noteq> s) ?A))"
    using assms by (simp add: get_watchlist_cases db' active_rows_deactivate)
  also have "sort_key ?k (filter (\<lambda>r. wl_symbol r \<noteq> s) ?A) =
      filter (\<lambda>r. wl_symbol r \<noteq> s) (sort_key ?k ?A)"
    by (rule filter_sort[symmetric])
  also have "map wl_symbol (filter (\<lambda>r. wl_symbol r \<noteq> s) (sort_key ?k ?A)) =
      filter (\<lambda>x. x \<noteq> s) (map wl_symbol (sort_key ?k ?A))"
    by (rule filter_symbol_sort_key)
  also have "map wl_symbol (sort_key ?k ?A) = get_watchlist env db"
    using assms by (simp add: get_watchlist_cases)
  finally show ?thesis using True by simp
qed

text \<open>
  Claim C7. With the query not raising, \<^verbatim>\<open>get_watchlist\<close> returns the symbols of exactly
  the active rows, in descending order of \<^verbatim>\<open>added_at\<close>, the time the row was added.
  A symbol added at a time later than every active row comes first, before the list as it
  was; a removal takes the symbol out and keeps the order of the others. From an empty
  watchlist, adding AAPL and then, later, TSLA gives TSLA, AAPL, and removing AAPL then
  gives TSLA.
\<close>

theorem get_watchlist_most_recent_first:
  assumes "no_fault env" and "no_fault env1" and "no_fault env2" and "no_fault env3"
  shows "(\<exists>rows. get_watchlist env db = map wl_symbol rows \<and>
            mset rows = mset (filter is_active (user_watchlist db)) \<and>
            sorted_wrt (\<lambda>a b. added_at a \<ge> added_at b) rows) \<and>
         (s \<notin> set (active_symbols db) \<longrightarrow>
            (\<forall>r\<in>set (user_watchlist db). is_active r \<longrightarrow> added_at r < utcnow env1) \<longrightarrow>
            get_watchlist env (fst (add_to_watchlist env1 db s)) = s # get_watchlist env db) \<and>
         (s \<in> set (active_symbols db) \<longrightarrow>
            get_watchlist env (fst (remove_from_watchlist env3 db s)) =
              filter (\<lambda>x. x \<noteq> s) (get_watchlist env db)) \<and>
         (user_watchlist db = [] \<longrightarrow> utcnow env1 < utcnow env2 \<longrightarrow>
            get_watchlist env (fst (add_to_watchlist env1 db ''AAPL'')) = [''AAPL''] \<and>
            get_watchlist env
              (fst (add_to_watchlist env2 (fst (add_to_watchlist env1 db ''AAPL'')) ''TSLA''))
              = [''TSLA'', ''AAPL''] \<and>
            get_watchlist env
              (fst (remove_from_watchlist env3
                 (fst (add_to_watchlist env2 (fst (add_to_watchlist env1 db ''AAPL'')) ''TSLA''))
                 ''AAPL''))
              = [''TSLA''])"
proof -
  from assms have f: "fault env Query = None"
      "fault env1 Query = None" "fault env1 Commit = None"
      "fault env2 Query = None" "fault env2 Commit = None"
      "fault env3 Query = None" "fault env3 Execute = None" "fault env3 Commit = None"
    by (simp_all add: no_fault_def)
  let ?rows = "sort_key (\<lambda>r. - added_at r) (filter is_active (user_watchlist db))"
  have "sorted (map (\<lambda>r. - added_at r) ?rows)" by (rule sorted_sort_key)
  then have "sorted_wrt (\<lambda>a b. added_at a \<ge> added_at b) ?rows"
    by (simp add: sorted_map sorted_wrt_map)
  then have a: "\<exists>rows. get_watchlist env db = map wl_symbol rows \<and>
            mset rows = mset (filter is_active (user_watchlist db)) \<and>
            sorted_wrt (\<lambda>a b. added_at a \<ge> added_at b) rows"
    by (intro exI[of _ ?rows]) (simp add: get_watchlist_cases f)
  have b: "s \<notin> set (active_symbols db) \<longrightarrow>
            (\<forall>r\<in>set (user_watchlist db). is_active r \<longrightarrow> added_at r < utcnow env1) \<longrightarrow>
            get_watchlist env (fst (add_to_watchlist env1 db s)) = s # get_watchlist env db"
    using get_watchlist_after_add[OF f(1) f(2) f(3), of s db] by blast
  have c: "s \<in> set (active_symbols db) \<longrightarrow>
            get_watchlist env (fst (remove_from_watchlist env3 db s)) =
              filter (\<lambda>x. x \<noteq> s) (get_watchlist env db)"
  proof
    assume "s \<in> set (active_symbols db)"
    then have "snd (remove_from_watchlist env3 db s)"
      by (simp add: remove_from_watchlist_cases f)
    then show "get_watchlist env (fst (remove_from_watchlist env3 db s)) =
              filter (\<lambda>x. x \<noteq> s) (get_watchlist env db)"
      using get_watchlist_after_remove[OF f(1), of env3 db s] by simp
  qed
  have d: "get_watchlist env (fst (add_to_watchlist env1 db ''AAPL'')) = [''AAPL''] \<and>
            get_watchlist env
              (fst (add_to_watchlist env2 (fst (add_to_watchlist env1 db ''AAPL'')) ''TSLA''))
              = [''TSLA'', ''AAPL''] \<and>
            get_watchlist env
              (fst (remove_from_watchlist env3
                 (fst (add_to_watchlist env2 (fst (add_to_watchlist env1 db ''AAPL'')) ''TSLA''))
                 ''AAPL''))
              = [''TSLA'']"
    if e: "user_watchlist db = []" and lt: "utcnow env1 < utcnow env2"
  proof -
    let ?db1 = "fst (add_to_watchlist env1 db ''AAPL'')"
    let ?db2 = "fst (add_to_watchlist env2 ?db1 ''TSLA'')"
    have w1: "user_watchlist ?db1 = [watchlist_item ''AAPL'' (utcnow env1)]"
      by (simp add: add_to_watchlist_cases f active_symbols_def e)
    have w2: "user_watchlist ?db2 =
        [watchlist_item ''AAPL'' (utcnow env1), watchlist_item ''TSLA'' (utcnow env2)]"
      by (simp add: add_to_watchlist_cases[of env2] f active_symbols_def w1 watchlist_item_def)
    have l1: "get_watchlist env ?db1 = [''AAPL'']"
      by (simp add: get_watchlist_cases f w1 watchlist_item_def)
    have l2: "get_watchlist env ?db2 = [''TSLA'', ''AAPL'']"
      using lt by (simp add: get_watchlist_cases f w2 watchlist_item_def)
    have act: "''AAPL'' \<in> set (active_symbols ?db2)"
      by (simp add: active_symbols_def w2 watchlist_item_def)
    from act have "snd (remove_from_watchlist env3 ?db2 ''AAPL'')"
      by (simp add: remove_from_watchlist_cases[of env3] f)
    then have l3: "get_watchlist env (fst (remove_from_watchlist env3 ?db2 ''AAPL'')) = [''TSLA'']"
      using get_watchlist_after_remove[OF f(1), of env3 ?db2 "''AAPL''"]
      by (simp add: l2)
    show ?thesis using l1 l2 l3 by blast
  qed
  show ?thesis using a b c d by blast
qed

theorem get_watchlist_most_recent_first_witness:
  "no_fault (env_ok 9) \<and> no_fault (env_ok 1) \<and> no_fault (env_ok 2) \<and> no_fault (env_ok 3) \<and>
   user_watchlist empty_db = [] \<and> utcnow (env_ok 1) < utcnow (env_ok 2) \<and>
   get_watchlist (env_ok 9)
     (fst (add_to_watchlist (env_ok 2) (fst (add_to_watchlist (env_ok 1) empty_db ''AAPL'')) ''TSLA''))
     = [''TSLA'', ''AAPL''] \<and>
   get_watchlist (env_ok 9)
     (fst (remove_from_watchlist (env_ok 3)
        (fst (add_to_watchlist (env_ok 2) (fst (add_to_watchlist (env_ok 1) empty_db ''AAPL'')) ''TSLA''))
        ''AAPL''))
     = [''TSLA'']"
proof -
  have f: "no_fault (env_ok 9)" "no_fault (env_ok 1)" "no_fault (env_ok 2)" "no_fault (env_ok 3)"
    by (simp_all add: no_fault_def env_ok_def)
  have h: "user_watchlist empty_db = []" "utcnow (env_ok 1) < utcnow (env_ok 2)"
    by (simp_all add: empty_db_def env_ok_def)
  show ?thesis
    using f h get_watchlist_most_recent_first [OF f, of empty_db "''AAPL''"]
    by blast
qed

subsection \<open>Failures inside the \<^verbatim>\<open>try\<close> stay inside the store\<close>

lemma save_company_info_fault:
  "fault env Query \<noteq> None \<or> fault env Commit \<noteq> None \<Longrightarrow>
     save_company_info env db s d = (db, False)"
  by (auto simp: save_company_info_def save_company_info_try_def Let_def
        split: option.splits sum.splits if_splits)

lemma save_stock_data_fault:
  "fault env Delete \<noteq> None \<or> fault env Commit \<noteq> None \<Longrightarrow>
     save_stock_data env db s bars = (db, False)"
  by (auto simp: save_stock_data_def save_stock_data_try_def Let_def
        split: option.splits sum.splits)

lemma get_company_info_from_db_cases:
  "get_company_info_from_db env db s =
     (if fault env Query = None
      then map_option company_dict (find (\<lambda>r. ci_symbol r = s) (company_info db))
      else None)"
  by (auto simp: get_company_info_from_db_def get_company_info_from_db_try_def
        split: option.splits)

lemma save_stock_data_bad_volume:
  assumes "\<exists>b\<in>set bars. \<forall>x. Volume b \<noteq> Num x"
  shows "save_stock_data env db s bars = (db, False)"
proof (cases "save_stock_data_try env db s bars")
  case (Inl e)
  then show ?thesis by (simp add: save_stock_data_def)
next
  case (Inr db')
  then obtain new where n: "list_all2 (\<lambda>b r. stock_record s (utcnow env) b = Inr r) bars new"
    unfolding save_stock_data_try_Inr by blast
  from assms obtain b where b: "b \<in> set bars" "\<forall>x. Volume b \<noteq> Num x" by blast
  from b(1) n obtain r where "stock_record s (utcnow env) b = Inr r"
    by (auto simp: list_all2_conv_all_nth in_set_conv_nth)
  then have "\<exists>x. Volume b = Num x"
    using stock_record_Inr[of s "utcnow env" b] by blast
  with b(2) show ?thesis by blast
qed

text \<open>With the calls around the \<^verbatim>\<open>try\<close> succeeding, the whole call returns what the
  \<^verbatim>\<open>try\<close> with its handler gives.\<close>

lemma finally_close_ok:
  "handlers_ok env \<Longrightarrow> finally_close env r = r"
  by (simp add: finally_close_def handlers_ok_def)

lemma except_rollback_ok:
  "handlers_ok env \<Longrightarrow> except_rollback env d = Inr d"
  by (simp add: except_rollback_def handlers_ok_def)

lemma except_report_ok:
  "handlers_ok env \<Longrightarrow> except_report env d = Inr d"
  by (simp add: except_report_def handlers_ok_def)

lemma finally_close_raises:
  "(\<exists>e. finally_close env r = Inl e) \<longleftrightarrow> fault env DbClose \<noteq> None \<or> (\<exists>e. r = Inl e)"
  by (auto simp: finally_close_def split: option.splits)

lemma except_rollback_raises:
  "(\<exists>e. except_rollback env d = Inl e) \<longleftrightarrow>
     fault env Rollback \<noteq> None \<or> fault env StError \<noteq> None"
  by (auto simp: except_rollback_def split: option.splits)

lemma except_report_raises:
  "(\<exists>e. except_report env d = Inl e) \<longleftrightarrow> fault env StError \<noteq> None"
  by (auto simp: except_report_def split: option.splits)

lemma write_calls_ok:
  assumes "handlers_ok env"
  shows "save_stock_data_call env db s bars =
           (fst (save_stock_data env db s bars), Inr (snd (save_stock_data env db s bars)))"
    and "save_company_info_call env db s d =
           (fst (save_company_info env db s d), Inr (snd (save_company_info env db s d)))"
    and "add_to_watchlist_call env db s =
           (fst (add_to_watchlist env db s), Inr (snd (add_to_watchlist env db s)))"
    and "remove_from_watchlist_call env db s =
           (fst (remove_from_watchlist env db s), Inr (snd (remove_from_watchlist env db s)))"
proof -
  from assms have g: "fault env GetDb = None" by (simp add: handlers_ok_def)
  note ok = finally_close_ok[OF assms] except_rollback_ok[OF assms]
  show "save_stock_data_call env db s bars =
           (fst (save_stock_data env db s bars), Inr (snd (save_stock_data env db s bars)))"
    by (cases "save_stock_data_try env db s bars")
       (simp_all add: save_stock_data_call_def save_stock_data_def g ok)
  show "save_company_info_call env db s d =
           (fst (save_company_info env db s d), Inr (snd (save_company_info env db s d)))"
    by (cases "save_company_info_try env db s d")
       (simp_all add: save_company_info_call_def save_company_info_def g ok)
  show "add_to_watchlist_call env db s =
           (fst (add_to_watchlist env db s), Inr (snd (add_to_watchlist env db s)))"
    by (cases "add_to_watchlist_try env db s")
       (auto simp: add_to_watchlist_call_def add_to_watchlist_def g ok)
  show "remove_from_watchlist_call env db s =
           (fst (remove_from_watchlist env db s), Inr (snd (remove_from_watchlist env db s)))"
    by (cases "remove_from_watchlist_try env db s")
       (auto simp: remove_from_watchlist_call_def remove_from_watchlist_def g ok)
qed

lemma read_calls_ok:
  assumes "handlers_ok env"
  shows "get_cached_stock_data_call env db s period = Inr (get_cached_stock_data env db s period)"
    and "get_company_info_from_db_call env db s = Inr (get_company_info_from_db env db s)"
    and "get_watchlist_call env db = Inr (get_watchlist env db)"
proof -
  from assms have g: "fault env GetDb = None" by (simp add: handlers_ok_def)
  note ok = finally_close_ok[OF assms] except_report_ok[OF assms]
  show "get_cached_stock_data_call env db s period = Inr (get_cached_stock_data env db s period)"
    by (cases "get_cached_stock_data_try env db s period")
       (simp_all add: get_cached_stock_data_call_def get_cached_stock_data_def g ok)
  show "get_company_info_from_db_call env db s = Inr (get_company_info_from_db env db s)"
    by (cases "get_company_info_from_db_try env db s")
       (simp_all add: get_company_info_from_db_call_def get_company_info_from_db_def g ok)
  show "get_watchlist_call env db = Inr (get_watchlist env db)"
    by (cases "get_watchlist_try env db")
       (simp_all add: get_watchlist_call_def get_watchlist_def g ok)
qed

text \<open>When the whole call raises.\<close>

lemma write_calls_raise:
  "(\<exists>e. snd (save_stock_data_call env db s bars) = Inl e) \<longleftrightarrow>
     fault env GetDb \<noteq> None \<or> fault env DbClose \<noteq> None \<or>
     ((\<exists>e. save_stock_data_try env db s bars = Inl e) \<and>
      (fault env Rollback \<noteq> None \<or> fault env StError \<noteq> None))"
  "(\<exists>e. snd (save_company_info_call env db s d) = Inl e) \<longleftrightarrow>
     fault env GetDb \<noteq> None \<or> fault env DbClose \<noteq> None \<or>
     ((\<exists>e. save_company_info_try env db s d = Inl e) \<and>
      (fault env Rollback \<noteq> None \<or> fault env StError \<noteq> None))"
  "(\<exists>e. snd (add_to_watchlist_call env db s) = Inl e) \<longleftrightarrow>
     fault env GetDb \<noteq> None \<or> fault env DbClose \<noteq> None \<or>
     ((\<exists>e. add_to_watchlist_try env db s = Inl e) \<and>
      (fault env Rollback \<noteq> None \<or> fault env StError \<noteq> None))"
  "(\<exists>e. snd (remove_from_watchlist_call env db s) = Inl e) \<longleftrightarrow>
     fault env GetDb \<noteq> None \<or> fault env DbClose \<noteq> None \<or>
     ((\<exists>e. remove_from_watchlist_try env db s = Inl e) \<and>
      (fault env Rollback \<noteq> None \<or> fault env StError \<noteq> None))"
proof -
  show "(\<exists>e. snd (save_stock_data_call env db s bars) = Inl e) \<longleftrightarrow>
     fault env GetDb \<noteq> None \<or> fault env DbClose \<noteq> None \<or>
     ((\<exists>e. save_stock_data_try env db s bars = Inl e) \<and>
      (fault env Rollback \<noteq> None \<or> fault env StError \<noteq> None))"
    by (cases "fault env GetDb"; cases "save_stock_data_try env db s bars")
       (simp_all add: save_stock_data_call_def finally_close_raises except_rollback_raises)
  show "(\<exists>e. snd (save_company_info_call env db s d) = Inl e) \<longleftrightarrow>
     fault env GetDb \<noteq> None \<or> fault env DbClose \<noteq> None \<or>
     ((\<exists>e. save_company_info_try env db s d = Inl e) \<and>
      (fault env Rollback \<noteq> None \<or> fault env StError \<noteq> None))"
    by (cases "fault env GetDb"; cases "save_company_info_try env db s d")
       (simp_all add: save_company_info_call_def finally_close_raises except_rollback_raises)
  show "(\<exists>e. snd (add_to_watchlist_call env db s) = Inl e) \<longleftrightarrow>
     fault env GetDb \<noteq> None \<or> fault env DbClose \<noteq> None \<or>
     ((\<exists>e. add_to_watchlist_try env db s = Inl e) \<and>
      (fault env Rollback \<noteq> None \<or> fault env StError \<noteq> None))"
    by (cases "fault env GetDb"; cases "add_to_watchlist_try env db s")
       (auto simp: add_to_watchlist_call_def finally_close_def except_rollback_def split: option.splits)
  show "(\<exists>e. snd (remove_from_watchlist_call env db s) = Inl e) \<longleftrightarrow>
     fault env GetDb \<noteq> None \<or> fault env DbClose \<noteq> None \<or>
     ((\<exists>e. remove_from_watchlist_try env db s = Inl e) \<and>
      (fault env Rollback \<noteq> None \<or> fault env StError \<noteq> None))"
    by (cases "fault env GetDb"; cases "remove_from_watchlist_try env db s")
       (auto simp: remove_from_watchlist_call_def finally_close_def except_rollback_def split: option.splits)
qed

lemma read_calls_raise:
  "(\<exists>e. get_cached_stock_data_call env db s period = Inl e) \<longleftrightarrow>
     fault env GetDb \<noteq> None \<or> fault env DbClose \<noteq> None \<or>
     ((\<exists>e. get_cached_stock_data_try env db s period = Inl e) \<and> fault env StError \<noteq> None)"
  "(\<exists>e. get_company_info_from_db_call env db s = Inl e) \<longleftrightarrow>
     fault env GetDb \<noteq> None \<or> fault env DbClose \<noteq> None \<or>
     ((\<exists>e. get_company_info_from_db_try env db s = Inl e) \<and> fault env StError \<noteq> None)"
  "(\<exists>e. get_watchlist_call env db = Inl e) \<longleftrightarrow>
     fault env GetDb \<noteq> None \<or> fault env DbClose \<noteq> None \<or>
     ((\<exists>e. get_watchlist_try env db = Inl e) \<and> fault env StError \<noteq> None)"
proof -
  show "(\<exists>e. get_cached_stock_data_call env db s period = Inl e) \<longleftrightarrow>
     fault env GetDb \<noteq> None \<or> fault env DbClose \<noteq> None \<or>
     ((\<exists>e. get_cached_stock_data_try env db s period = Inl e) \<and> fault env StError \<noteq> None)"
    by (cases "fault env GetDb"; cases "get_cached_stock_data_try env db s period")
       (simp_all add: get_cached_stock_data_call_def finally_close_raises except_report_raises)
  show "(\<exists>e. get_company_info_from_db_call env db s = Inl e) \<longleftrightarrow>
     fault env GetDb \<noteq> None \<or> fault env DbClose \<noteq> None \<or>
     ((\<exists>e. get_company_info_from_db_try env db s = Inl e) \<and> fault env StError \<noteq> None)"
    by (cases "fault env GetDb"; cases "get_company_info_from_db_try env db s")
       (simp_all add: get_company_info_from_db_call_def finally_close_raises except_report_raises)
  show "(\<exists>e. get_watchlist_call env db = Inl e) \<longleftrightarrow>
     fault env GetDb \<noteq> None \<or> fault env DbClose \<noteq> None \<or>
     ((\<exists>e. get_watchlist_try env db = Inl e) \<and> fault env StError \<noteq> None)"
    by (cases "fault env GetDb"; cases "get_watchlist_try env db")
       (simp_all add: get_watchlist_call_def finally_close_raises except_report_raises)
qed

text \<open>
  Claim C8, as amended. A store operation raises to its caller exactly when creating the
  session raises, when \<^verbatim>\<open>db.close()\<close> raises, or when the \<^verbatim>\<open>try\<close> block raised and
  the handler's own \<^verbatim>\<open>db.rollback()\<close> (the writes) or \<^verbatim>\<open>st.error(...)\<close> raises. When
  these calls around the \<^verbatim>\<open>try\<close> succeed, every operation returns: whatever raises
  inside the \<^verbatim>\<open>try\<close> (the query, the delete, the update, the commit, a volume that does
  not convert) becomes false with the database as it was for the four writes, None for the
  two single reads and the empty list for \<^verbatim>\<open>get_watchlist\<close>.
\<close>

theorem store_calls_raise_only_outside_try:
  "(handlers_ok env \<longrightarrow>
      save_stock_data_call env db s bars =
        (fst (save_stock_data env db s bars), Inr (snd (save_stock_data env db s bars))) \<and>
      save_company_info_call env db s d =
        (fst (save_company_info env db s d), Inr (snd (save_company_info env db s d))) \<and>
      add_to_watchlist_call env db s =
        (fst (add_to_watchlist env db s), Inr (snd (add_to_watchlist env db s))) \<and>
      remove_from_watchlist_call env db s =
        (fst (remove_from_watchlist env db s), Inr (snd (remove_from_watchlist env db s))) \<and>
      get_cached_stock_data_call env db s period = Inr (get_cached_stock_data env db s period) \<and>
      get_company_info_from_db_call env db s = Inr (get_company_info_from_db env db s) \<and>
      get_watchlist_call env db = Inr (get_watchlist env db) \<and>
      (\<forall>e. save_stock_data_try env db s bars = Inl e \<longrightarrow>
           save_stock_data_call env db s bars = (db, Inr False)) \<and>
      (\<forall>e. save_company_info_try env db s d = Inl e \<longrightarrow>
           save_company_info_call env db s d = (db, Inr False)) \<and>
      (\<forall>e. add_to_watchlist_try env db s = Inl e \<longrightarrow>
           add_to_watchlist_call env db s = (db, Inr False)) \<and>
      (\<forall>e. remove_from_watchlist_try env db s = Inl e \<longrightarrow>
           remove_from_watchlist_call env db s = (db, Inr False)) \<and>
      (\<forall>e. get_cached_stock_data_try env db s period = Inl e \<longrightarrow>
           get_cached_stock_data_call env db s period = Inr None) \<and>
      (\<forall>e. get_company_info_from_db_try env db s = Inl e \<longrightarrow>
           get_company_info_from_db_call env db s = Inr None) \<and>
      (\<forall>e. get_watchlist_try env db = Inl e \<longrightarrow> get_watchlist_call env db = Inr []) \<and>
      (fault env Query \<noteq> None \<longrightarrow>
           save_company_info_call env db s d = (db, Inr False) \<and>
           add_to_watchlist_call env db s = (db, Inr False) \<and>
           remove_from_watchlist_call env db s = (db, Inr False) \<and>
           get_cached_stock_data_call env db s period = Inr None \<and>
           get_company_info_from_db_call env db s = Inr None \<and>
           get_watchlist_call env db = Inr []) \<and>
      (fault env Delete \<noteq> None \<longrightarrow> save_stock_data_call env db s bars = (db, Inr False)) \<and>
      (fault env Commit \<noteq> None \<longrightarrow>
           save_stock_data_call env db s bars = (db, Inr False) \<and>
           save_company_info_call env db s d = (db, Inr False) \<and>
           add_to_watchlist_call env db s = (db, Inr False) \<and>
           remove_from_watchlist_call env db s = (db, Inr False)) \<and>
      (fault env Execute \<noteq> None \<longrightarrow> remove_from_watchlist_call env db s = (db, Inr False)) \<and>
      ((\<exists>b\<in>set bars. \<forall>x. Volume b \<noteq> Num x) \<longrightarrow>
           save_stock_data_call env db s bars = (db, Inr False))) \<and>
   ((\<exists>e. snd (save_stock_data_call env db s bars) = Inl e) \<longleftrightarrow>
      fault env GetDb \<noteq> None \<or> fault env DbClose \<noteq> None \<or>
      ((\<exists>e. save_stock_data_try env db s bars = Inl e) \<and>
       (fault env Rollback \<noteq> None \<or> fault env StError \<noteq> None))) \<and>
   ((\<exists>e. snd (save_company_info_call env db s d) = Inl e) \<longleftrightarrow>
      fault env GetDb \<noteq> None \<or> fault env DbClose \<noteq> None \<or>
      ((\<exists>e. save_company_info_try env db s d = Inl e) \<and>
       (fault env Rollback \<noteq> None \<or> fault env StError \<noteq> None))) \<and>
   ((\<exists>e. snd (add_to_watchlist_call env db s) = Inl e) \<longleftrightarrow>
      fault env GetDb \<noteq> None \<or> fault env DbClose \<noteq> None \<or>
      ((\<exists>e. add_to_watchlist_try env db s = Inl e) \<and>
       (fault env Rollback \<noteq> None \<or> fault env StError \<noteq> None))) \<and>
   ((\<exists>e. snd (remove_from_watchlist_call env db s) = Inl e) \<longleftrightarrow>
      fault env GetDb \<noteq> None \<or> fault env DbClose \<noteq> None \<or>
      ((\<exists>e. remove_from_watchlist_try env db s = Inl e) \<and>
       (fault env Rollback \<noteq> None \<or> fault env StError \<noteq> None))) \<and>
   ((\<exists>e. get_cached_stock_data_call env db s period = Inl e) \<longleftrightarrow>
      fault env GetDb \<noteq> None \<or> fault env DbClose \<noteq> None \<or>
      ((\<exists>e. get_cached_stock_data_try env db s period = Inl e) \<and> fault env StError \<noteq> None)) \<and>
   ((\<exists>e. get_company_info_from_db_call env db s = Inl e) \<longleftrightarrow>
      fault env GetDb \<noteq> None \<or> fault env DbClose \<noteq> None \<or>
      ((\<exists>e. get_company_info_from_db_try env db s = Inl e) \<and> fault env StError \<noteq> None)) \<and>
   ((\<exists>e. get_watchlist_call env db = Inl e) \<longleftrightarrow>
      fault env GetDb \<noteq> None \<or> fault env DbClose \<noteq> None \<or>
      ((\<exists>e. get_watchlist_try env db = Inl e) \<and> fault env StError \<noteq> None))"
proof -
  have inside: "save_stock_data_call env db s bars =
        (fst (save_stock_data env db s bars), Inr (snd (save_stock_data env db s bars))) \<and>
      save_company_info_call env db s d =
        (fst (save_company_info env db s d), Inr (snd (save_company_info env db s d))) \<and>
      add_to_watchlist_call env db s =
        (fst (add_to_watchlist env db s), Inr (snd (add_to_watchlist env db s))) \<and>
      remove_from_watchlist_call env db s =
        (fst (remove_from_watchlist env db s), Inr (snd (remove_from_watchlist env db s))) \<and>
      get_cached_stock_data_call env db s period = Inr (get_cached_stock_data env db s period) \<and>
      get_company_info_from_db_call env db s = Inr (get_company_info_from_db env db s) \<and>
      get_watchlist_call env db = Inr (get_watchlist env db) \<and>
      (\<forall>e. save_stock_data_try env db s bars = Inl e \<longrightarrow>
           save_stock_data_call env db s bars = (db, Inr False)) \<and>
      (\<forall>e. save_company_info_try env db s d = Inl e \<longrightarrow>
           save_company_info_call env db s d = (db, Inr False)) \<and>
      (\<forall>e. add_to_watchlist_try env db s = Inl e \<longrightarrow>
           add_to_watchlist_call env db s = (db, Inr False)) \<and>
      (\<forall>e. remove_from_watchlist_try env db s = Inl e \<longrightarrow>
           remove_from_watchlist_call env db s = (db, Inr False)) \<and>
      (\<forall>e. get_cached_stock_data_try env db s period = Inl e \<longrightarrow>
           get_cached_stock_data_call env db s period = Inr None) \<and>
      (\<forall>e. get_company_info_from_db_try env db s = Inl e \<longrightarrow>
           get_company_info_from_db_call env db s = Inr None) \<and>
      (\<forall>e. get_watchlist_try env db = Inl e \<longrightarrow> get_watchlist_call env db = Inr []) \<and>
      (fault env Query \<noteq> None \<longrightarrow>
           save_company_info_call env db s d = (db, Inr False) \<and>
           add_to_watchlist_call env db s = (db, Inr False) \<and>
           remove_from_watchlist_call env db s = (db, Inr False) \<and>
           get_cached_stock_data_call env db s period = Inr None \<and>
           get_company_info_from_db_call env db s = Inr None \<and>
           get_watchlist_call env db = Inr []) \<and>
      (fault env Delete \<noteq> None \<longrightarrow> save_stock_data_call env db s bars = (db, Inr False)) \<and>
      (fault env Commit \<noteq> None \<longrightarrow>
           save_stock_data_call env db s bars = (db, Inr False) \<and>
           save_company_info_call env db s d = (db, Inr False) \<and>
           add_to_watchlist_call env db s = (db, Inr False) \<and>
           remove_from_watchlist_call env db s = (db, Inr False)) \<and>
      (fault env Execute \<noteq> None \<longrightarrow> remove_from_watchlist_call env db s = (db, Inr False)) \<and>
      ((\<exists>b\<in>set bars. \<forall>x. Volume b \<noteq> Num x) \<longrightarrow>
           save_stock_data_call env db s bars = (db, Inr False))"
    if h: "handlers_ok env"
  proof -
    note w = write_calls_ok[OF h] and r = read_calls_ok[OF h]
    have b1: "\<forall>e. save_stock_data_try env db s bars = Inl e \<longrightarrow>
           save_stock_data_call env db s bars = (db, Inr False)"
      by (simp add: w save_stock_data_def)
    have b2: "\<forall>e. save_company_info_try env db s d = Inl e \<longrightarrow>
           save_company_info_call env db s d = (db, Inr False)"
      by (simp add: w save_company_info_def)
    have b3: "\<forall>e. add_to_watchlist_try env db s = Inl e \<longrightarrow>
           add_to_watchlist_call env db s = (db, Inr False)"
      by (simp add: w add_to_watchlist_def)
    have b4: "\<forall>e. remove_from_watchlist_try env db s = Inl e \<longrightarrow>
           remove_from_watchlist_call env db s = (db, Inr False)"
      by (simp add: w remove_from_watchlist_def)
    have b5: "\<forall>e. get_cached_stock_data_try env db s period = Inl e \<longrightarrow>
           get_cached_stock_data_call env db s period = Inr None"
      by (simp add: r get_cached_stock_data_def)
    have b6: "\<forall>e. get_company_info_from_db_try env db s = Inl e \<longrightarrow>
           get_company_info_from_db_call env db s = Inr None"
      by (simp add: r get_company_info_from_db_def)
    have b7: "\<forall>e. get_watchlist_try env db = Inl e \<longrightarrow> get_watchlist_call env db = Inr []"
      by (simp add: r get_watchlist_def)
    have q: "fault env Query \<noteq> None \<longrightarrow>
           save_company_info_call env db s d = (db, Inr False) \<and>
           add_to_watchlist_call env db s = (db, Inr False) \<and>
           remove_from_watchlist_call env db s = (db, Inr False) \<and>
           get_cached_stock_data_call env db s period = Inr None \<and>
           get_company_info_from_db_call env db s = Inr None \<and>
           get_watchlist_call env db = Inr []"
      by (simp add: w r save_company_info_fault add_to_watchlist_cases
            remove_from_watchlist_cases get_cached_stock_data_cases
            get_company_info_from_db_cases get_watchlist_cases)
    have del: "fault env Delete \<noteq> None \<longrightarrow> save_stock_data_call env db s bars = (db, Inr False)"
      by (simp add: w save_stock_data_fault)
    have com: "fault env Commit \<noteq> None \<longrightarrow>
           save_stock_data_call env db s bars = (db, Inr False) \<and>
           save_company_info_call env db s d = (db, Inr False) \<and>
           add_to_watchlist_call env db s = (db, Inr False) \<and>
           remove_from_watchlist_call env db s = (db, Inr False)"
      by (simp add: w save_stock_data_fault save_company_info_fault add_to_watchlist_cases
            remove_from_watchlist_cases)
    have ex: "fault env Execute \<noteq> None \<longrightarrow> remove_from_watchlist_call env db s = (db, Inr False)"
      by (simp add: w remove_from_watchlist_cases)
    have vol: "(\<exists>b\<in>set bars. \<forall>x. Volume b \<noteq> Num x) \<longrightarrow>
           save_stock_data_call env db s bars = (db, Inr False)"
      by (simp add: w save_stock_data_bad_volume)
    show ?thesis
      using w r b1 b2 b3 b4 b5 b6 b7 q del com ex vol by (intro conjI)
  qed
  show ?thesis
    using inside write_calls_raise read_calls_raise
    by (intro conjI impI) blast+
qed

theorem store_calls_raise_only_outside_try_witness:
  "handlers_ok (env_failing 5 Commit) \<and> fault (env_failing 5 Commit) Commit \<noteq> None \<and>
   save_stock_data_call (env_failing 5 Commit)
     (empty_db\<lparr>user_watchlist := [watchlist_item ''AAPL'' 1]\<rparr>) ''AAPL'' [sample_bar 1 (Num 7)]
     = (empty_db\<lparr>user_watchlist := [watchlist_item ''AAPL'' 1]\<rparr>, Inr False) \<and>
   add_to_watchlist_call (env_failing 5 Commit)
     (empty_db\<lparr>user_watchlist := [watchlist_item ''AAPL'' 1]\<rparr>) ''AAPL''
     = (empty_db\<lparr>user_watchlist := [watchlist_item ''AAPL'' 1]\<rparr>, Inr False) \<and>
   handlers_ok (env_failing 5 Query) \<and> fault (env_failing 5 Query) Query \<noteq> None \<and>
   get_watchlist_call (env_failing 5 Query)
     (empty_db\<lparr>user_watchlist := [watchlist_item ''AAPL'' 1]\<rparr>) = Inr [] \<and>
   get_cached_stock_data_call (env_failing 5 Query)
     (empty_db\<lparr>user_watchlist := [watchlist_item ''AAPL'' 1]\<rparr>) ''AAPL'' ''1y'' = Inr None"
proof -
  let ?D = "empty_db\<lparr>user_watchlist := [watchlist_item ''AAPL'' 1]\<rparr>"
  have hc: "handlers_ok (env_failing 5 Commit)" and fc: "fault (env_failing 5 Commit) Commit \<noteq> None"
    and hq: "handlers_ok (env_failing 5 Query)" and fq: "fault (env_failing 5 Query) Query \<noteq> None"
    by (simp_all add: handlers_ok_def env_failing_def)
  note tc = store_calls_raise_only_outside_try
      [of "env_failing 5 Commit" ?D "''AAPL''" "[sample_bar 1 (Num 7)]" "[]" "''1y''",
       THEN conjunct1, rule_format, OF hc]
  note tq = store_calls_raise_only_outside_try
      [of "env_failing 5 Query" ?D "''AAPL''" "[sample_bar 1 (Num 7)]" "[]" "''1y''",
       THEN conjunct1, rule_format, OF hq]
  have w1: "save_stock_data_call (env_failing 5 Commit) ?D ''AAPL'' [sample_bar 1 (Num 7)]
     = (?D, Inr False)"
    using tc fc by blast
  have w2: "add_to_watchlist_call (env_failing 5 Commit) ?D ''AAPL'' = (?D, Inr False)"
    using tc fc by blast
  have w3: "get_watchlist_call (env_failing 5 Query) ?D = Inr []"
    using tq fq by blast
  have w4: "get_cached_stock_data_call (env_failing 5 Query) ?D ''AAPL'' ''1y'' = Inr None"
    using tq fq by blast
  show ?thesis using hc fc hq fq w1 w2 w3 w4 by simp
qed

text \<open>
  Claim C8 as stated does not hold: nothing guards the calls around the \<^verbatim>\<open>try\<close>. When
  the connection is lost, the commit raises, the handler's rollback raises in turn, and the
  exception reaches the caller of \<^verbatim>\<open>save_stock_data\<close> and of \<^verbatim>\<open>add_to_watchlist\<close>;
  when \<^verbatim>\<open>db.close()\<close> raises, \<^verbatim>\<open>get_watchlist\<close> raises although its query returned.
\<close>

theorem store_call_raises_counterexample:
  "save_stock_data_call (env_connection_lost 5) empty_db ''AAPL'' [sample_bar 1 (Num 7)]
     = (empty_db, Inl (SQLAlchemyError ''connection lost'')) \<and>
   add_to_watchlist_call (env_connection_lost 5) empty_db ''AAPL''
     = (empty_db, Inl (SQLAlchemyError ''connection lost'')) \<and>
   get_watchlist_call (env_failing 5 DbClose) empty_db = Inl (SQLAlchemyError ''connection lost'')"
  by (simp add: save_stock_data_call_def save_stock_data_try_def stock_record_def
        add_to_watchlist_call_def add_to_watchlist_try_def get_watchlist_call_def
        get_watchlist_try_def finally_close_def except_rollback_def env_connection_lost_def
        env_failing_def empty_db_def sample_bar_def Let_def)

subsection \<open>The fallback of \<^verbatim>\<open>fetch_data\<close>\<close>

lemma fetch_data_try_fails_iff:
  "(\<exists>e. fetch_data_try env prov db symbol period interval = Inl e) \<longleftrightarrow>
     (\<exists>e. history prov symbol period interval = Inl e) \<or>
     (\<exists>e. ticker_info prov symbol = Inl e) \<or>
     (\<exists>tinfo. ticker_info prov symbol = Inr tinfo \<and> \<not> dict_has tinfo ''regularMarketPrice'')"
  by (auto simp: fetch_data_try_def Let_def split: sum.splits)

lemma sublist_not_found_message:
  "sublist ''not found'' (not_found_message symbol)"
proof -
  have "not_found_message symbol =
      (''Symbol '' @ [CHR 0x27] @ symbol @ [CHR 0x27] @ '' '') @ ''not found'' @
      '' or no data available.''"
    by (simp add: not_found_message_def)
  then show ?thesis
    by (simp only: sublist_appendI)
qed

text \<open>
  Claim C1. When the \<^verbatim>\<open>try\<close> block of \<^verbatim>\<open>fetch_data\<close> raises (the history call or the
  info call raises, or the info has no \<^verbatim>\<open>regularMarketPrice\<close>), the result has
  success true exactly when both \<^verbatim>\<open>get_cached_stock_data\<close> and
  \<^verbatim>\<open>get_company_info_from_db\<close> returned a value before the fetch, and it then carries
  exactly those two values and no error; otherwise it has success false, no bars, no
  snapshot, and the exception's message. The database is left as it was.
\<close>

theorem fetch_data_fallback:
  assumes "fetch_data_try env prov db symbol period interval = Inl e"
  shows "(success (snd (fetch_data env prov db symbol period interval)) \<longleftrightarrow>
            get_cached_stock_data (env_cached env) db symbol period \<noteq> None \<and>
            get_company_info_from_db (env_cached_info env) db symbol \<noteq> None) \<and>
         (get_cached_stock_data (env_cached env) db symbol period \<noteq> None \<and>
          get_company_info_from_db (env_cached_info env) db symbol \<noteq> None \<longrightarrow>
            historical (snd (fetch_data env prov db symbol period interval)) =
              get_cached_stock_data (env_cached env) db symbol period \<and>
            info (snd (fetch_data env prov db symbol period interval)) =
              get_company_info_from_db (env_cached_info env) db symbol \<and>
            error (snd (fetch_data env prov db symbol period interval)) = None) \<and>
         (get_cached_stock_data (env_cached env) db symbol period = None \<or>
          get_company_info_from_db (env_cached_info env) db symbol = None \<longrightarrow>
            \<not> success (snd (fetch_data env prov db symbol period interval)) \<and>
            historical (snd (fetch_data env prov db symbol period interval)) = None \<and>
            info (snd (fetch_data env prov db symbol period interval)) = None \<and>
            error (snd (fetch_data env prov db symbol period interval)) = Some (str_exn e)) \<and>
         fst (fetch_data env prov db symbol period interval) = db"
proof (cases "get_cached_stock_data (env_cached env) db symbol period \<noteq> None \<and>
              get_company_info_from_db (env_cached_info env) db symbol \<noteq> None")
  case True
  then have "fetch_data env prov db symbol period interval =
      (db, \<lparr>historical = get_cached_stock_data (env_cached env) db symbol period,
            info = get_company_info_from_db (env_cached_info env) db symbol,
            success = True, error = None\<rparr>)"
    using assms by (simp add: fetch_data_def Let_def)
  with True show ?thesis by simp
next
  case False
  then have "fetch_data env prov db symbol period interval =
      (db, \<lparr>historical = None, info = None, success = False, error = Some (str_exn e)\<rparr>)"
    using assms by (simp add: fetch_data_def Let_def)
  with False show ?thesis by auto
qed

theorem fetch_data_fallback_witness:
  "fetch_data_try (sample_fetch_env (timedelta_days 100)) provider_down cached_db
     ''AAPL'' ''1mo'' ''1d'' = Inl (ProviderError ''connection timed out'') \<and>
   get_cached_stock_data (env_ok (timedelta_days 100)) cached_db ''AAPL'' ''1mo''
     = Some [frame_row (sample_row ''AAPL'' 95)] \<and>
   success (snd (fetch_data (sample_fetch_env (timedelta_days 100)) provider_down cached_db
     ''AAPL'' ''1mo'' ''1d'')) \<and>
   historical (snd (fetch_data (sample_fetch_env (timedelta_days 100)) provider_down cached_db
     ''AAPL'' ''1mo'' ''1d'')) = Some [frame_row (sample_row ''AAPL'' 95)] \<and>
   \<not> success (snd (fetch_data (sample_fetch_env (timedelta_days 100)) provider_down
     (cached_db\<lparr>company_info := []\<rparr>) ''AAPL'' ''1mo'' ''1d''))"
proof -
  have t: "fetch_data_try (sample_fetch_env (timedelta_days 100)) provider_down db
     ''AAPL'' ''1mo'' ''1d'' = Inl (ProviderError ''connection timed out'')" for db
    by (simp add: fetch_data_try_def provider_down_def)
  have e: "env_cached (sample_fetch_env (timedelta_days 100)) = env_ok (timedelta_days 100)"
      "env_cached_info (sample_fetch_env (timedelta_days 100)) = env_ok (timedelta_days 100)"
    by (simp_all add: sample_fetch_env_def)
  have c: "get_cached_stock_data (env_ok (timedelta_days 100)) cached_db ''AAPL'' ''1mo''
     = Some [frame_row (sample_row ''AAPL'' 95)]"
    by (simp add: get_cached_stock_data_cases bars_since_def period_days_def env_ok_def
          cached_db_def sample_row_def timedelta_days_def)
  have i: "get_company_info_from_db (env_ok (timedelta_days 100)) cached_db ''AAPL'' \<noteq> None"
    by (simp add: get_company_info_from_db_cases env_ok_def cached_db_def company_record_def)
  have n: "get_company_info_from_db (env_ok (timedelta_days 100))
             (cached_db\<lparr>company_info := []\<rparr>) ''AAPL'' = None"
    by (simp add: get_company_info_from_db_cases env_ok_def)
  note a = fetch_data_fallback [OF t [of cached_db]]
  note b = fetch_data_fallback [OF t [of "cached_db\<lparr>company_info := []\<rparr>"]]
  have s1: "success (snd (fetch_data (sample_fetch_env (timedelta_days 100)) provider_down cached_db
     ''AAPL'' ''1mo'' ''1d''))"
    using a c i by (simp add: e)
  have s2: "historical (snd (fetch_data (sample_fetch_env (timedelta_days 100)) provider_down cached_db
     ''AAPL'' ''1mo'' ''1d'')) = Some [frame_row (sample_row ''AAPL'' 95)]"
    using a c i by (simp add: e)
  have s3: "\<not> success (snd (fetch_data (sample_fetch_env (timedelta_days 100)) provider_down
     (cached_db\<lparr>company_info := []\<rparr>) ''AAPL'' ''1mo'' ''1d''))"
    using b n by (simp add: e)
  show ?thesis using t[of cached_db] c s1 s2 s3 by simp
qed

text \<open>
  Claim C2. When the history call returns and the info call returns a dictionary without
  \<^verbatim>\<open>regularMarketPrice\<close>, the \<^verbatim>\<open>try\<close> block raises the ValueError whose message is
  \<^verbatim>\<open>Symbol '...' not found or no data available.\<close>, whatever the bars were; and when the
  cached bars or the cached snapshot is missing, \<^verbatim>\<open>fetch_data\<close> returns success false,
  no bars, no snapshot, and that message, which contains \<^verbatim>\<open>not found\<close>.
\<close>

theorem fetch_data_symbol_not_found:
  assumes "history prov symbol period interval = Inr hist"
    and "ticker_info prov symbol = Inr tinfo"
    and "\<not> dict_has tinfo ''regularMarketPrice''"
  shows "fetch_data_try env prov db symbol period interval =
           Inl (ValueError (not_found_message symbol)) \<and>
         sublist ''not found'' (not_found_message symbol) \<and>
         (get_cached_stock_data (env_cached env) db symbol period = None \<or>
          get_company_info_from_db (env_cached_info env) db symbol = None \<longrightarrow>
            fetch_data env prov db symbol period interval =
              (db, \<lparr>historical = None, info = None, success = False,
                    error = Some (not_found_message symbol)\<rparr>) \<and>
            (\<exists>msg. error (snd (fetch_data env prov db symbol period interval)) = Some msg \<and>
                   sublist ''not found'' msg))"
proof -
  have t: "fetch_data_try env prov db symbol period interval =
           Inl (ValueError (not_found_message symbol))"
    using assms by (simp add: fetch_data_try_def)
  have r: "fetch_data env prov db symbol period interval =
              (db, \<lparr>historical = None, info = None, success = False,
                    error = Some (not_found_message symbol)\<rparr>)"
    if "get_cached_stock_data (env_cached env) db symbol period = None \<or>
        get_company_info_from_db (env_cached_info env) db symbol = None"
    using that t by (auto simp: fetch_data_def Let_def)
  show ?thesis
    using t r sublist_not_found_message[of symbol] by auto
qed

theorem fetch_data_symbol_not_found_witness:
  "history provider_unknown ''BADSYM'' ''1y'' ''1d'' = Inr [] \<and>
   ticker_info provider_unknown ''BADSYM'' = Inr [(''trailingPegRatio'', PyNone)] \<and>
   \<not> dict_has [(''trailingPegRatio'', PyNone)] ''regularMarketPrice'' \<and>
   get_cached_stock_data (env_cached (sample_fetch_env (timedelta_days 100))) empty_db
     ''BADSYM'' ''1y'' = None \<and>
   fetch_data (sample_fetch_env (timedelta_days 100)) provider_unknown empty_db
     ''BADSYM'' ''1y'' ''1d''
     = (empty_db, \<lparr>historical = None, info = None, success = False,
                    error = Some (not_found_message ''BADSYM'')\<rparr>) \<and>
   sublist ''not found'' (not_found_message ''BADSYM'')"
proof -
  have h: "history provider_unknown ''BADSYM'' ''1y'' ''1d'' = Inr []"
    and i: "ticker_info provider_unknown ''BADSYM'' = Inr [(''trailingPegRatio'', PyNone)]"
    by (simp_all add: provider_unknown_def)
  have d: "\<not> dict_has [(''trailingPegRatio'', PyNone)] ''regularMarketPrice''"
    by (simp add: dict_has_def)
  have c: "get_cached_stock_data (env_cached (sample_fetch_env (timedelta_days 100))) empty_db
     ''BADSYM'' ''1y'' = None"
    by (simp add: get_cached_stock_data_cases bars_since_def empty_db_def)
  note t = fetch_data_symbol_not_found [OF h i d,
      of "sample_fetch_env (timedelta_days 100)" empty_db]
  have f: "fetch_data (sample_fetch_env (timedelta_days 100)) provider_unknown empty_db
     ''BADSYM'' ''1y'' ''1d''
     = (empty_db, \<lparr>historical = None, info = None, success = False,
                    error = Some (not_found_message ''BADSYM'')\<rparr>)"
    using t c by blast
  have s: "sublist ''not found'' (not_found_message ''BADSYM'')"
    using t by blast
  show ?thesis using h i d c f s by simp
qed

end
